theory Spec2Isabelle
  imports Main "HOL-Library.Word" "HOL-Library.Sublist"
begin

unbundle bit_operations_syntax

section \<open>Support functions of the parallel I/O library (pioc\_support.c)\<close>

subsection \<open>Pointers, the buffer arena and region lists\<close>

text \<open>
  A pointer is an address; address 0 is the C null pointer. The arena allocator's
  \<^verbatim>\<open>brel\<close> is modelled by its effect on a log of the blocks handed back, in
  the order of the calls.
\<close>

type_synonym ptr = nat

definition NULL :: ptr where
  "NULL = 0"

text \<open>
  \<^verbatim>\<open>io_region\<close>: the two coordinate arrays are owned through their
  addresses, \<open>region_next\<close> is the field \<^verbatim>\<open>next\<close>.
\<close>

record io_region =
  region_start :: ptr
  region_count :: ptr
  loffset :: int
  region_next :: ptr

type_synonym region_heap = "ptr \<rightharpoonup> io_region"

datatype fault = Invalid_Pointer ptr | Out_of_bounds ptr nat

definition brel :: "ptr \<Rightarrow> ptr list \<Rightarrow> ptr list" where
  "brel p released = released @ [p]"

text \<open>
  One node's releases, in source order: the start array if it is not null, the count
  array if it is not null, then (after the next field has been read) the node.
\<close>

definition free_region_node :: "ptr \<Rightarrow> io_region \<Rightarrow> ptr list \<Rightarrow> ptr list" where
  "free_region_node p r released =
     (let released1 = (if region_start r \<noteq> NULL then brel (region_start r) released else released);
          released2 = (if region_count r \<noteq> NULL then brel (region_count r) released1 else released1)
      in brel p released2)"

text \<open>
  \<^verbatim>\<open>free_region_list\<close>: the while loop over \<^verbatim>\<open>ptr\<close>. The loop
  need not terminate (a cyclic chain), so it lives in the option monad: \<open>None\<close> is
  a run that never returns. Reading a node at an address that holds no region is a fault.
\<close>

partial_function (option) free_region_loop ::
  "region_heap \<Rightarrow> ptr \<Rightarrow> ptr list \<Rightarrow> (fault + ptr list) option" where
  "free_region_loop h p released =
     (if p = NULL then Some (Inr released)
      else (case h p of
              None \<Rightarrow> Some (Inl (Invalid_Pointer p))
            | Some r \<Rightarrow> free_region_loop h (region_next r) (free_region_node p r released)))"

definition free_region_list :: "region_heap \<Rightarrow> ptr \<Rightarrow> ptr list \<Rightarrow> (fault + ptr list) option" where
  "free_region_list h topp released = free_region_loop h topp released"

text \<open>
  A finite chain of region nodes from \<open>p\<close> to the null pointer: the list names the
  nodes in order. A chain that reaches null is what an acyclic list is.
\<close>

fun region_chain :: "region_heap \<Rightarrow> ptr \<Rightarrow> ptr list \<Rightarrow> bool" where
  "region_chain h p [] = (p = NULL)"
| "region_chain h p (q # qs) =
     (p \<noteq> NULL \<and> p = q \<and>
      (case h p of None \<Rightarrow> False | Some r \<Rightarrow> region_chain h (region_next r) qs))"

text \<open>The blocks a chain owns, in the order the loop hands them back.\<close>

fun region_blocks :: "region_heap \<Rightarrow> ptr list \<Rightarrow> ptr list" where
  "region_blocks h [] = []"
| "region_blocks h (q # qs) =
     (case h q of
        None \<Rightarrow> region_blocks h qs
      | Some r \<Rightarrow> free_region_node q r [] @ region_blocks h qs)"

subsection \<open>Constants of the headers\<close>

text \<open>
  The headers \<^verbatim>\<open>pio.h\<close> and \<^verbatim>\<open>netcdf.h\<close> are not among the sources. The
  status codes are netCDF's public values, which \<^verbatim>\<open>pio.h\<close> renames; the backend
  types are the four tags of the enumeration, in the order the range check of
  \<^verbatim>\<open>PIOc_openfile_retry\<close> relies on; the error handlers are the three modes of the
  I/O system context.
\<close>

definition PIO_NOERR :: int where "PIO_NOERR = 0"

definition NC_NOERR :: int where "NC_NOERR = 0"

definition MPI_SUCCESS :: int where "MPI_SUCCESS = 0"

definition NC_EBADID :: int where "NC_EBADID = - 33"

definition NC_EINVAL :: int where "NC_EINVAL = - 36"

definition NC_ENOTNC :: int where "NC_ENOTNC = - 51"

definition NC_ENOMEM :: int where "NC_ENOMEM = - 61"

definition NC_EIO :: int where "NC_EIO = - 68"

definition PIO_EBADID :: int where "PIO_EBADID = NC_EBADID"

definition PIO_EINVAL :: int where "PIO_EINVAL = NC_EINVAL"

definition PIO_ENOMEM :: int where "PIO_ENOMEM = NC_ENOMEM"

definition PIO_EIO :: int where "PIO_EIO = NC_EIO"

definition PIO_EBADIOTYPE :: int where "PIO_EBADIOTYPE = - 255"

definition PIO_IOTYPE_PNETCDF :: int where "PIO_IOTYPE_PNETCDF = 1"

definition PIO_IOTYPE_NETCDF :: int where "PIO_IOTYPE_NETCDF = 2"

definition PIO_IOTYPE_NETCDF4C :: int where "PIO_IOTYPE_NETCDF4C = 3"

definition PIO_IOTYPE_NETCDF4P :: int where "PIO_IOTYPE_NETCDF4P = 4"

definition PIO_INTERNAL_ERROR :: int where "PIO_INTERNAL_ERROR = - 51"

definition PIO_BCAST_ERROR :: int where "PIO_BCAST_ERROR = - 52"

definition PIO_RETURN_ERROR :: int where "PIO_RETURN_ERROR = - 53"

definition PIO_REARR_BOX :: int where "PIO_REARR_BOX = 1"

definition PIO_REARR_SUBSET :: int where "PIO_REARR_SUBSET = 2"

definition PIO_MSG_OPEN_FILE :: int where "PIO_MSG_OPEN_FILE = 0"

definition NC_WRITE :: int where "NC_WRITE = 1"

definition PIO_WRITE :: int where "PIO_WRITE = NC_WRITE"

definition NC_NETCDF4 :: int where "NC_NETCDF4 = 4096"

definition NC_MPIIO :: int where "NC_MPIIO = 8192"

text \<open>The version tag of the map file format: \<^verbatim>\<open>#define versno 2001\<close>.\<close>

definition versno :: int where "versno = 2001"

subsection \<open>The build, the I/O system context and the file handle\<close>

text \<open>The preprocessor symbols the code is conditional on.\<close>

record build =
  has_NETCDF :: bool
  has_NETCDF4 :: bool
  has_PNETCDF :: bool
  has_MPISERIAL :: bool

text \<open>
  \<^verbatim>\<open>iosystem_desc_t\<close>, the fields this file reads. \<open>iomaster\<close> and
  \<open>compmaster\<close> are tested for being non-zero, and \<open>compmaster\<close> is also passed
  as the root of the broadcasts over the inter-group communicator. Communicators are
  named by numbers.
\<close>

record iosystem_desc =
  union_comm :: nat
  io_comm :: nat
  intercomm :: nat
  my_comm :: nat
  io_rank :: int
  iomaster :: int
  compmaster :: int
  ioroot :: int
  comproot :: int
  error_handler :: int
  async_interface :: bool
  ioproc :: bool
  info :: nat

text \<open>
  \<^verbatim>\<open>file_desc_t\<close>. \<open>pio_ncid\<close> is indeterminate until the open assigns it:
  \<open>None\<close>. The per-variable table and the staging buffer are set to constants by the
  open and read by no function of this file; they are left out.
\<close>

record file_desc =
  iosystem :: iosystem_desc
  fh :: int
  pio_ncid :: "int option"
  iotype :: int
  file_mode :: int
  do_io :: int

text \<open>What a call leaves behind: it returns a status, or the process is terminated.\<close>

datatype outcome = Return int | Aborted

text \<open>
  What the process does to the outside, in order: messages, backend calls, diagnostics
  and termination.
\<close>

datatype payload = Ints "int list" | Chars string | Offsets "int option list"

datatype message = Text string | Nc_strerror int | Ncmpi_strerror int | Out_of_memory nat

datatype diag =
    Abort_message message
  | Stack_trace
  | Buffer_report
  | Mpi_error_text int
  | Iotype_undefined int
  | Retry_notice

datatype event =
    Ev_send payload int int nat
  | Ev_recv int int nat
  | Ev_bcast payload int nat
  | Ev_gather payload int nat
  | Ev_nc_open string int
  | Ev_nc_open_par string int nat nat
  | Ev_ncmpi_open nat string int nat
  | Ev_ncmpi_buffer_attach int
  | Ev_diag diag
  | Ev_abort

text \<open>
  The answers of the outside to one call of \<^verbatim>\<open>PIOc_openfile_retry\<close>. Each
  communication call and each backend call of the function runs at most once, so the
  answers are indexed by the call; \<open>Error_string\<close> is the call of
  \<^verbatim>\<open>MPI_Error_string\<close> in \<^verbatim>\<open>check_mpi\<close>. A broadcast over the process's own communicator leaves
  the buffer of the root as it is and overwrites it everywhere else: \<open>mpi_recv\<close> is
  \<open>None\<close> on the root and the value delivered otherwise. A backend open stores a native
  handle or leaves the field alone (\<open>None\<close>).
\<close>

datatype mpi_call =
    Send_msg
  | Bcast_len
  | Bcast_filename
  | Bcast_iotype
  | Bcast_mode
  | Bcast_mpierr
  | Bcast_ierr
  | Bcast_file_mode
  | Bcast_status
  | Error_string

datatype backend_call = Native_open | Buffer_attach | Retry_open

record env =
  malloc_file :: bool
  mpi_rc :: "mpi_call \<Rightarrow> int"
  mpi_recv :: "mpi_call \<Rightarrow> int option"
  backend_rc :: "backend_call \<Rightarrow> int"
  backend_fh :: "backend_call \<Rightarrow> int option"

definition MPI_Bcast_int :: "env \<Rightarrow> mpi_call \<Rightarrow> int \<Rightarrow> int \<times> int" where
  "MPI_Bcast_int e c v = (mpi_rc e c, (case mpi_recv e c of None \<Rightarrow> v | Some w \<Rightarrow> w))"

definition store_fh :: "env \<Rightarrow> backend_call \<Rightarrow> file_desc \<Rightarrow> file_desc" where
  "store_fh e c file = (case backend_fh e c of None \<Rightarrow> file | Some h \<Rightarrow> file\<lparr>fh := h\<rparr>)"

subsection \<open>Termination and error classification\<close>

text \<open>
  \<^verbatim>\<open>piodie\<close>: the message and the stack trace go to standard error, then
  \<^verbatim>\<open>abort\<close> or \<^verbatim>\<open>MPI_Abort\<close> ends the process. \<^verbatim>\<open>piomemerror\<close>
  reports the buffer pool first.
\<close>

definition piodie :: "message \<Rightarrow> event list \<times> outcome" where
  "piodie msg = ([Ev_diag (Abort_message msg), Ev_diag Stack_trace, Ev_abort], Aborted)"

definition piomemerror :: "iosystem_desc \<Rightarrow> nat \<Rightarrow> event list \<times> outcome" where
  "piomemerror ios req =
     (let (evs, out) = piodie (Out_of_memory req) in (Ev_diag Buffer_report # evs, out))"

definition iotype_error :: "int \<Rightarrow> event list \<times> int" where
  "iotype_error t = ([Ev_diag (Iotype_undefined t)], PIO_EBADIOTYPE)"

text \<open>Which case of the switch over the backend type a build has.\<close>

definition netcdf_case :: "build \<Rightarrow> int \<Rightarrow> bool" where
  "netcdf_case b t \<longleftrightarrow>
     has_NETCDF b \<and>
     (t = PIO_IOTYPE_NETCDF \<or>
      (has_NETCDF4 b \<and> (t = PIO_IOTYPE_NETCDF4P \<or> t = PIO_IOTYPE_NETCDF4C)))"

definition pnetcdf_case :: "build \<Rightarrow> int \<Rightarrow> bool" where
  "pnetcdf_case b t \<longleftrightarrow> has_PNETCDF b \<and> t = PIO_IOTYPE_PNETCDF"

text \<open>
  \<^verbatim>\<open>check_netcdf\<close>; the file pointer is not null at every call of this model.
  The broadcast of the status replaces it on every process but the root.
\<close>

definition check_netcdf :: "build \<Rightarrow> env \<Rightarrow> file_desc \<Rightarrow> int \<Rightarrow> event list \<times> outcome" where
  "check_netcdf b e file status =
     (let ios = iosystem file in
      if netcdf_case b (iotype file) then
        (if iomaster ios \<noteq> 0 \<and> status \<noteq> NC_NOERR \<and> error_handler ios = PIO_INTERNAL_ERROR
         then piodie (Nc_strerror status)
         else if error_handler ios = PIO_INTERNAL_ERROR then
           (if status \<noteq> NC_NOERR then ([Ev_abort], Aborted) else ([], Return status))
         else if error_handler ios = PIO_BCAST_ERROR then
           ([Ev_bcast (Ints [status]) (ioroot ios) (my_comm ios)],
            Return (snd (MPI_Bcast_int e Bcast_status status)))
         else ([], Return status))
      else if pnetcdf_case b (iotype file) then
        (if status \<noteq> NC_NOERR \<and> error_handler ios = PIO_INTERNAL_ERROR
         then piodie (Ncmpi_strerror status)
         else if error_handler ios = PIO_BCAST_ERROR then
           ([Ev_bcast (Ints [status]) (ioroot ios) (my_comm ios)],
            Return (snd (MPI_Bcast_int e Bcast_status status)))
         else ([], Return status))
      else (fst (iotype_error (iotype file)), Return status))"

text \<open>
  \<^verbatim>\<open>check_mpi\<close> with a file: for a failed communication call the error text is
  printed if \<^verbatim>\<open>MPI_Error_string\<close> returns zero, the generic transport code is
  routed through \<^verbatim>\<open>check_netcdf\<close>, and that code is returned if the process is
  still there.
\<close>

definition check_mpi :: "build \<Rightarrow> env \<Rightarrow> file_desc \<Rightarrow> int \<Rightarrow> event list \<times> outcome" where
  "check_mpi b e file mpierr =
     (if mpierr \<noteq> 0 then
        (let evt = (if mpi_rc e Error_string = 0 then [Ev_diag (Mpi_error_text mpierr)]
                    else []);
             (evs, out) = check_netcdf b e file PIO_EIO
         in (evt @ evs,
             (case out of Aborted \<Rightarrow> Aborted | Return _ \<Rightarrow> Return PIO_EIO)))
      else ([], Return PIO_NOERR))"

subsection \<open>Opening a file\<close>

text \<open>
  The process-wide state: the counter of public file identifiers, the list of open
  files and the registry of I/O systems.
\<close>

record pio_state =
  pio_next_ncid :: int
  pio_file_list :: "file_desc list"
  pio_iosystem_list :: "int \<rightharpoonup> iosystem_desc"

text \<open>
  Modelled from the spec: \<^verbatim>\<open>pio_get_iosystem_from_id\<close> and
  \<^verbatim>\<open>pio_add_to_file_list\<close> are defined in another file of the library. The
  first resolves an identifier through the process-wide registry; the second links the
  file handle into the process-wide open-file registry.
\<close>

definition pio_get_iosystem_from_id :: "pio_state \<Rightarrow> int \<Rightarrow> iosystem_desc option" where
  "pio_get_iosystem_from_id st iosysid = pio_iosystem_list st iosysid"

definition pio_add_to_file_list :: "file_desc \<Rightarrow> pio_state \<Rightarrow> pio_state" where
  "pio_add_to_file_list file st = st\<lparr>pio_file_list := pio_file_list st @ [file]\<rparr>"

text \<open>
  The arguments: \<open>ncidp\<close> is the address of the caller's cell, \<open>iotype_p\<close> and
  \<open>filename\<close> are \<open>None\<close> for a null pointer and the value pointed to otherwise.
\<close>

record openfile_args =
  iosysid :: int
  ncidp :: ptr
  iotype_p :: "int option"
  filename :: "string option"
  mode :: int
  retry :: int

text \<open>
  What a call leaves: the outcome, the value written to the caller's cell (\<open>None\<close>
  when nothing was written), the file structure if one was allocated, the process-wide
  state and the events in order.
\<close>

record openfile_result =
  res_outcome :: outcome
  res_ncid :: "int option"
  res_file :: "file_desc option"
  res_state :: pio_state
  res_trace :: "event list"

definition INT_MAX :: int where
  "INT_MAX = 2147483647"

text \<open>Lines 741 to 771: the fields of the new file structure.\<close>

definition openfile_init :: "iosystem_desc \<Rightarrow> int \<Rightarrow> int \<Rightarrow> file_desc" where
  "openfile_init ios t m =
     \<lparr>iosystem = ios, fh = - 1, pio_ncid = None, iotype = t, file_mode = m,
      do_io = (if t = PIO_IOTYPE_NETCDF4P \<or> t = PIO_IOTYPE_PNETCDF \<or> io_rank ios = 0
               then 1 else 0)\<rparr>"

text \<open>
  Lines 779 to 794, run by a process that is not an I/O process: the operation code
  from the compute representative, then the four broadcasts of the arguments, each only
  if nothing has failed before. The compute group is the sending side of the inter-group
  communicator, so its buffers stay as they are. The result is the events and
  \<^verbatim>\<open>mpierr\<close>.
\<close>

definition openfile_params :: "env \<Rightarrow> iosystem_desc \<Rightarrow> file_desc \<Rightarrow> string \<Rightarrow> event list \<times> int" where
  "openfile_params e ios file name =
     (let (ev1, m1) =
            (if compmaster ios \<noteq> 0
             then ([Ev_send (Ints [PIO_MSG_OPEN_FILE]) (ioroot ios) 1 (union_comm ios)],
                   mpi_rc e Send_msg)
             else ([], MPI_SUCCESS));
          (ev2, m2) =
            (if m1 = 0
             then ([Ev_bcast (Ints [int (length name)]) (compmaster ios) (intercomm ios)],
                   mpi_rc e Bcast_len)
             else ([], m1));
          (ev3, m3) =
            (if m2 = 0
             then ([Ev_bcast (Chars (name @ [CHR 0x00])) (compmaster ios) (intercomm ios)],
                   mpi_rc e Bcast_filename)
             else ([], m2));
          (ev4, m4) =
            (if m3 = 0
             then ([Ev_bcast (Ints [iotype file]) (compmaster ios) (intercomm ios)],
                   mpi_rc e Bcast_iotype)
             else ([], m3));
          (ev5, m5) =
            (if m4 = 0
             then ([Ev_bcast (Ints [file_mode file]) (compmaster ios) (intercomm ios)],
                   mpi_rc e Bcast_mode)
             else ([], m4))
      in (ev1 @ ev2 @ ev3 @ ev4 @ ev5, m5))"

text \<open>
  Lines 774 to 801: the whole asynchronous block. \<open>Some\<close> outcome is an early
  return through \<^verbatim>\<open>check_mpi\<close>.
\<close>

definition openfile_async ::
  "build \<Rightarrow> env \<Rightarrow> iosystem_desc \<Rightarrow> file_desc \<Rightarrow> string \<Rightarrow> event list \<times> outcome option" where
  "openfile_async b e ios file name =
     (if async_interface ios then
        (let (evp, mpierr) =
               (if \<not> ioproc ios then openfile_params e ios file name else ([], MPI_SUCCESS));
             (mpierr2, mpierr') = MPI_Bcast_int e Bcast_mpierr mpierr;
             evb = evp @ [Ev_bcast (Ints [mpierr]) (comproot ios) (my_comm ios)]
         in if mpierr2 \<noteq> 0 then
              (let (evc, out) = check_mpi b e file mpierr2 in (evb @ evc, Some out))
            else if mpierr' \<noteq> 0 then
              (let (evc, out) = check_mpi b e file mpierr' in (evb @ evc, Some out))
            else (evb, None))
      else ([], None))"

text \<open>
  Lines 806 to 849: the switch over the backend type on an I/O process. The result is
  the events, \<^verbatim>\<open>ierr\<close> and the file structure.
\<close>

definition openfile_native ::
  "build \<Rightarrow> env \<Rightarrow> iosystem_desc \<Rightarrow> file_desc \<Rightarrow> string \<Rightarrow> event list \<times> int \<times> file_desc" where
  "openfile_native b e ios file name =
     (if has_NETCDF b \<and> has_NETCDF4 b \<and> iotype file = PIO_IOTYPE_NETCDF4P then
        (if has_MPISERIAL b then
           ([Ev_nc_open name (file_mode file)], backend_rc e Native_open,
            store_fh e Native_open file)
         else
           (let file1 = file\<lparr>file_mode := file_mode file OR NC_MPIIO\<rparr>
            in ([Ev_nc_open_par name (file_mode file1) (io_comm ios) (info ios)],
                backend_rc e Native_open, store_fh e Native_open file1)))
      else if has_NETCDF b \<and>
              (iotype file = PIO_IOTYPE_NETCDF \<or>
               (has_NETCDF4 b \<and> iotype file = PIO_IOTYPE_NETCDF4C)) then
        (let file1 = (if has_NETCDF4 b \<and> iotype file = PIO_IOTYPE_NETCDF4C
                      then file\<lparr>file_mode := file_mode file OR NC_NETCDF4\<rparr> else file)
         in if io_rank ios = 0
            then ([Ev_nc_open name (file_mode file1)], backend_rc e Native_open,
                  store_fh e Native_open file1)
            else ([], PIO_NOERR, file1))
      else if has_PNETCDF b \<and> iotype file = PIO_IOTYPE_PNETCDF then
        (let file1 = store_fh e Native_open file;
             ierr = backend_rc e Native_open;
             ev = [Ev_ncmpi_open (io_comm ios) name (file_mode file) (info ios)]
         in if ierr = PIO_NOERR \<and> (file_mode file AND PIO_WRITE) \<noteq> 0
            then (ev @ [Ev_ncmpi_buffer_attach (fh file1)], backend_rc e Buffer_attach, file1)
            else (ev, ierr, file1))
      else (fst (iotype_error (iotype file)), snd (iotype_error (iotype file)), file))"

text \<open>
  Lines 854 to 875: the retry with the serial classic type, compiled in only with
  netCDF.
\<close>

definition openfile_retry_step ::
  "build \<Rightarrow> env \<Rightarrow> iosystem_desc \<Rightarrow> string \<Rightarrow> int \<Rightarrow> int \<times> file_desc
     \<Rightarrow> event list \<times> int \<times> file_desc" where
  "openfile_retry_step b e ios name rt st =
     (let ierr = fst st; file = snd st in
      if rt \<noteq> 0 \<and> has_NETCDF b \<and> (ierr = NC_ENOTNC \<or> ierr = NC_EINVAL) \<and>
         iotype file \<noteq> PIO_IOTYPE_NETCDF
      then
        (let ev0 = (if iomaster ios \<noteq> 0 then [Ev_diag Retry_notice] else []);
             file1 = file\<lparr>iotype := PIO_IOTYPE_NETCDF\<rparr>
         in if io_rank ios = 0
            then (ev0 @ [Ev_nc_open name (file_mode file1)], backend_rc e Retry_open,
                  store_fh e Retry_open file1)
            else (ev0, PIO_NOERR, file1))
      else ([], ierr, file))"

text \<open>Lines 804 to 876: what an I/O process does; any other process keeps \<^verbatim>\<open>ierr\<close> at zero.\<close>

definition openfile_io ::
  "build \<Rightarrow> env \<Rightarrow> iosystem_desc \<Rightarrow> file_desc \<Rightarrow> string \<Rightarrow> int \<Rightarrow> event list \<times> int \<times> file_desc" where
  "openfile_io b e ios file name rt =
     (if ioproc ios then
        (let (evn, ierr, file1) = openfile_native b e ios file name;
             (evr, ierr', file2) = openfile_retry_step b e ios name rt (ierr, file1)
         in (evn @ evr, ierr', file2))
      else ([], PIO_NOERR, file))"

text \<open>
  Lines 881 to 908: the broadcast of the outcome, its classification, and on success the
  broadcast of the mode, the public identifier and the registry. The counter is a C
  \<^verbatim>\<open>int\<close>: incrementing it at its largest value has no defined result, and the
  model has none there (\<open>None\<close>).
\<close>

definition openfile_finish ::
  "build \<Rightarrow> env \<Rightarrow> pio_state \<Rightarrow> file_desc \<Rightarrow> int \<Rightarrow> event list \<Rightarrow> openfile_result option" where
  "openfile_finish b e st file ierr evs =
     (let ios = iosystem file;
          (mpierr, ierr') = MPI_Bcast_int e Bcast_ierr ierr;
          ev1 = evs @ [Ev_bcast (Ints [ierr]) (ioroot ios) (my_comm ios)]
      in if mpierr \<noteq> 0 then
           (let (evc, out) = check_mpi b e file mpierr
            in Some \<lparr>res_outcome = out, res_ncid = None, res_file = Some file,
                      res_state = st, res_trace = ev1 @ evc\<rparr>)
         else if ierr' \<noteq> 0 then
           (let (evc, out) = check_netcdf b e file ierr'
            in Some \<lparr>res_outcome = out, res_ncid = None, res_file = Some file,
                      res_state = st, res_trace = ev1 @ evc\<rparr>)
         else
           (let (mpierr3, m) = MPI_Bcast_int e Bcast_file_mode (file_mode file);
                file1 = file\<lparr>file_mode := m\<rparr>;
                ev2 = ev1 @ [Ev_bcast (Ints [file_mode file]) (ioroot ios) (my_comm ios)]
            in if mpierr3 \<noteq> 0 then
                 (let (evc, out) = check_mpi b e file1 mpierr3
                  in Some \<lparr>res_outcome = out, res_ncid = None, res_file = Some file1,
                            res_state = st, res_trace = ev2 @ evc\<rparr>)
               else if pio_next_ncid st = INT_MAX then None
               else
                 (let file2 = file1\<lparr>pio_ncid := Some (pio_next_ncid st)\<rparr>;
                      st1 = st\<lparr>pio_next_ncid := pio_next_ncid st + 1\<rparr>
                  in Some \<lparr>res_outcome = Return ierr',
                            res_ncid = Some (pio_next_ncid st),
                            res_file = Some file2,
                            res_state = pio_add_to_file_list file2 st1,
                            res_trace = ev2\<rparr>)))"

definition openfile_early :: "pio_state \<Rightarrow> int \<Rightarrow> openfile_result" where
  "openfile_early st status =
     \<lparr>res_outcome = Return status, res_ncid = None, res_file = None, res_state = st,
      res_trace = []\<rparr>"

text \<open>\<^verbatim>\<open>PIOc_openfile_retry\<close>, as one process runs it.\<close>

definition PIOc_openfile_retry ::
  "build \<Rightarrow> env \<Rightarrow> pio_state \<Rightarrow> openfile_args \<Rightarrow> openfile_result option" where
  "PIOc_openfile_retry b e st a =
     (case (iotype_p a, filename a) of
        (Some t, Some name) \<Rightarrow>
          if ncidp a = NULL then Some (openfile_early st PIO_EINVAL)
          else if t < PIO_IOTYPE_PNETCDF \<or> t > PIO_IOTYPE_NETCDF4P
          then Some (openfile_early st PIO_ENOMEM)
          else
            (case pio_get_iosystem_from_id st (iosysid a) of
               None \<Rightarrow> Some (openfile_early st PIO_EBADID)
             | Some ios \<Rightarrow>
                 if \<not> malloc_file e then Some (openfile_early st PIO_ENOMEM)
                 else
                   (let file = openfile_init ios t (mode a) in
                    (case openfile_async b e ios file name of
                       (ev1, Some out) \<Rightarrow>
                         Some \<lparr>res_outcome = out, res_ncid = None, res_file = Some file,
                               res_state = st, res_trace = ev1\<rparr>
                     | (ev1, None) \<Rightarrow>
                         (let (ev2, ierr, file1) = openfile_io b e ios file name (retry a)
                          in openfile_finish b e st file1 ierr (ev1 @ ev2)))))
      | _ \<Rightarrow> Some (openfile_early st PIO_EINVAL))"

subsection \<open>Sample inputs\<close>

text \<open>
  A build with every backend, an I/O system in direct mode whose only process is the I/O
  root, a fresh process-wide state, an outside where every call succeeds, and a request
  for the parallel netCDF-4 type with retry.
\<close>

definition sample_build :: build where
  "sample_build =
     \<lparr>has_NETCDF = True, has_NETCDF4 = True, has_PNETCDF = True, has_MPISERIAL = False\<rparr>"

definition sample_ios :: iosystem_desc where
  "sample_ios =
     \<lparr>union_comm = 1, io_comm = 2, intercomm = 3, my_comm = 4, io_rank = 0, iomaster = 1,
      compmaster = 1, ioroot = 0, comproot = 0, error_handler = PIO_RETURN_ERROR,
      async_interface = False, ioproc = True, info = 0\<rparr>"

definition sample_state :: pio_state where
  "sample_state =
     \<lparr>pio_next_ncid = 16, pio_file_list = [], pio_iosystem_list = [0 \<mapsto> sample_ios]\<rparr>"

definition sample_env :: env where
  "sample_env =
     \<lparr>malloc_file = True, mpi_rc = (\<lambda>_. 0), mpi_recv = (\<lambda>_. None), backend_rc = (\<lambda>_. 0),
      backend_fh = (\<lambda>_. Some 3)\<rparr>"

definition sample_args :: openfile_args where
  "sample_args =
     \<lparr>iosysid = 0, ncidp = 100, iotype_p = Some PIO_IOTYPE_NETCDF4P, filename = Some ''f.nc'',
      mode = 0, retry = 1\<rparr>"

subsection \<open>Sequences of opens and closes\<close>




text \<open>
  The open files carry pairwise different public identifiers, all of them assigned and
  all below the counter.
\<close>

definition ids_below :: "int \<Rightarrow> file_desc \<Rightarrow> bool" where
  "ids_below n f = (case pio_ncid f of None \<Rightarrow> False | Some i \<Rightarrow> i < n)"




definition sample_comp_env :: env where
  "sample_comp_env =
     \<lparr>malloc_file = True, mpi_rc = (\<lambda>c. if c = Bcast_len then 5 else 0),
      mpi_recv = (\<lambda>_. Some 0), backend_rc = (\<lambda>_. 0), backend_fh = (\<lambda>_. Some 3)\<rparr>"

text \<open>Which events are calls of a backend library.\<close>

fun is_backend_event :: "event \<Rightarrow> bool" where
  "is_backend_event (Ev_nc_open _ _) = True"
| "is_backend_event (Ev_nc_open_par _ _ _ _) = True"
| "is_backend_event (Ev_ncmpi_open _ _ _ _) = True"
| "is_backend_event (Ev_ncmpi_buffer_attach _) = True"
| "is_backend_event _ = False"

text \<open>
  An outside in which the first open fails with the not-this-format code and the serial
  open succeeds; a second I/O process of the same I/O system, which receives the
  broadcasts; and the I/O root under the abort handling mode.
\<close>

definition sample_retry_env :: env where
  "sample_retry_env =
     \<lparr>malloc_file = True, mpi_rc = (\<lambda>_. 0), mpi_recv = (\<lambda>_. None),
      backend_rc = (\<lambda>c. if c = Native_open then NC_ENOTNC else 0),
      backend_fh = (\<lambda>c. if c = Native_open then None else Some 3)\<rparr>"

definition sample_second_ios :: iosystem_desc where
  "sample_second_ios = sample_ios\<lparr>io_rank := 1, iomaster := 0, compmaster := 0\<rparr>"

definition sample_second_state :: pio_state where
  "sample_second_state = sample_state\<lparr>pio_iosystem_list := [0 \<mapsto> sample_second_ios]\<rparr>"

definition sample_abort_state :: pio_state where
  "sample_abort_state =
     sample_state\<lparr>pio_iosystem_list := [0 \<mapsto> sample_ios\<lparr>error_handler := PIO_INTERNAL_ERROR\<rparr>]\<rparr>"


subsection \<open>Freeing a decomposition\<close>

text \<open>
  \<^verbatim>\<open>io_desc_t\<close>, the fields \<^verbatim>\<open>PIOc_freedecomp\<close> reads. \<open>rtype\<close> and
  \<open>stype\<close> point to arrays of message-layout handles, the other pointers to plain
  blocks of the arena. The null handle \<^verbatim>\<open>MPI_DATATYPE_NULL\<close> comes from the
  transport's header, which is not among the sources.
\<close>

record io_desc =
  rfrom :: ptr
  rtype :: ptr
  nrecvs :: int
  stype :: ptr
  num_stypes :: int
  scount :: ptr
  rcount :: ptr
  sindex :: ptr
  rindex :: ptr
  firstregion :: ptr
  rearranger :: int
  subset_comm :: nat

definition MPI_DATATYPE_NULL :: nat where
  "MPI_DATATYPE_NULL = 0"

text \<open>
  The state a call works on: the process-wide state, the registry of decompositions, the
  region nodes and handle arrays in memory, and what has been given back so far: arena
  blocks, message-layout handles and communicators, each in the order of the calls.
\<close>

record decomp_state =
  pio :: pio_state
  pio_iodesc_list :: "int \<rightharpoonup> io_desc"
  regions :: region_heap
  type_arrays :: "ptr \<rightharpoonup> nat list"
  blocks_released :: "ptr list"
  types_freed :: "nat list"
  comms_freed :: "nat list"

text \<open>
  Modelled from the spec: \<^verbatim>\<open>pio_get_iodesc_from_id\<close> and
  \<^verbatim>\<open>pio_delete_iodesc_from_list\<close> are defined in another file of the library.
  The spec says that the descriptor is looked up by its identifier in a process-wide
  registry, that the lookup tells when the identifier is absent, and that destroying
  ends by removing the identifier from the registry; zero is the status of success and
  the bad-id code that of an unknown identifier.
\<close>

definition pio_get_iodesc_from_id :: "decomp_state \<Rightarrow> int \<Rightarrow> io_desc option" where
  "pio_get_iodesc_from_id s ioid = pio_iodesc_list s ioid"

definition pio_delete_iodesc_from_list :: "int \<Rightarrow> decomp_state \<Rightarrow> int \<times> decomp_state" where
  "pio_delete_iodesc_from_list ioid s =
     (case pio_iodesc_list s ioid of
        None \<Rightarrow> (PIO_EBADID, s)
      | Some _ \<Rightarrow> (PIO_NOERR, s\<lparr>pio_iodesc_list := (pio_iodesc_list s)(ioid := None)\<rparr>))"

text \<open>\<^verbatim>\<open>brel\<close> on a field of the descriptor, guarded by the null test.\<close>

definition brel_field :: "ptr \<Rightarrow> decomp_state \<Rightarrow> decomp_state" where
  "brel_field p s = (if p \<noteq> NULL then s\<lparr>blocks_released := brel p (blocks_released s)\<rparr> else s)"

text \<open>
  One round of the loop over a handle array: a handle that is not the null handle is
  freed, and \<^verbatim>\<open>MPI_Type_free\<close> sets it to the null handle.
\<close>

definition free_type_at :: "nat \<Rightarrow> nat list \<times> nat list \<Rightarrow> nat list \<times> nat list" where
  "free_type_at i st =
     (let arr = fst st; freed = snd st in
      if arr ! i \<noteq> MPI_DATATYPE_NULL
      then (arr[i := MPI_DATATYPE_NULL], freed @ [arr ! i])
      else (arr, freed))"

text \<open>
  Lines 489 to 496 and 497 to 505: the handles of the first \<open>n\<close> entries, then the array
  itself. An array pointer that points to no array, or a count beyond the array, is a
  fault.
\<close>

definition free_type_array :: "ptr \<Rightarrow> int \<Rightarrow> decomp_state \<Rightarrow> fault + decomp_state" where
  "free_type_array p n s =
     (if p \<noteq> NULL then
        (case type_arrays s p of
           None \<Rightarrow> Inl (Invalid_Pointer p)
         | Some arr \<Rightarrow>
             if length arr < nat n then Inl (Out_of_bounds p (length arr))
             else
               (let (arr', freed) = fold free_type_at [0..<nat n] (arr, types_freed s)
                in Inr (s\<lparr>type_arrays := (type_arrays s)(p \<mapsto> arr'),
                          types_freed := freed,
                          blocks_released := brel p (blocks_released s)\<rparr>)))
      else Inr s)"

text \<open>
  \<^verbatim>\<open>PIOc_freedecomp\<close>. \<open>None\<close> is a run that never returns (the region list),
  \<open>Inl\<close> a fault, \<open>Inr\<close> the status returned and the state left.
\<close>

definition PIOc_freedecomp ::
  "decomp_state \<Rightarrow> int \<Rightarrow> int \<Rightarrow> (fault + int \<times> decomp_state) option" where
  "PIOc_freedecomp s sysid ioid =
     (case pio_get_iosystem_from_id (pio s) sysid of
        None \<Rightarrow> Some (Inr (PIO_EBADID, s))
      | Some ios \<Rightarrow>
          (case pio_get_iodesc_from_id s ioid of
             None \<Rightarrow> Some (Inr (PIO_EBADID, s))
           | Some iodesc \<Rightarrow>
               (let s1 = brel_field (rfrom iodesc) s in
                case free_type_array (rtype iodesc) (nrecvs iodesc) s1 of
                  Inl f \<Rightarrow> Some (Inl f)
                | Inr s2 \<Rightarrow>
                    (case free_type_array (stype iodesc) (num_stypes iodesc) s2 of
                       Inl f \<Rightarrow> Some (Inl f)
                     | Inr s3 \<Rightarrow>
                         (let s3' = (if stype iodesc \<noteq> NULL
                                     then s3\<lparr>pio_iodesc_list :=
                                            (pio_iodesc_list s3)(ioid \<mapsto> iodesc\<lparr>num_stypes := 0\<rparr>)\<rparr>
                                     else s3);
                              s4 = brel_field (scount iodesc) s3';
                              s5 = brel_field (rcount iodesc) s4;
                              s6 = brel_field (sindex iodesc) s5;
                              s7 = brel_field (rindex iodesc) s6
                          in case (if firstregion iodesc \<noteq> NULL
                                   then free_region_list (regions s7) (firstregion iodesc)
                                          (blocks_released s7)
                                   else Some (Inr (blocks_released s7))) of
                               None \<Rightarrow> None
                             | Some (Inl f) \<Rightarrow> Some (Inl f)
                             | Some (Inr rel) \<Rightarrow>
                                 (let s8 = s7\<lparr>blocks_released := rel\<rparr>;
                                      s9 = (if rearranger iodesc = PIO_REARR_SUBSET
                                            then s8\<lparr>comms_freed :=
                                                   comms_freed s8 @ [subset_comm iodesc]\<rparr>
                                            else s8)
                                  in Some (Inr (pio_delete_iodesc_from_list ioid s9))))))))"

text \<open>
  For stating what a call gives back: a handle array is usable when the pointer is null
  or points to an array with at least \<open>n\<close> entries; its live handles are the entries
  among the first \<open>n\<close> that are not the null handle; the blocks of a list of pointer
  fields are those that are not null.
\<close>

definition array_ok :: "decomp_state \<Rightarrow> ptr \<Rightarrow> int \<Rightarrow> bool" where
  "array_ok s p n \<longleftrightarrow>
     p = NULL \<or> (case type_arrays s p of None \<Rightarrow> False | Some arr \<Rightarrow> nat n \<le> length arr)"

definition live_handles :: "decomp_state \<Rightarrow> ptr \<Rightarrow> int \<Rightarrow> nat list" where
  "live_handles s p n =
     (if p = NULL then []
      else (case type_arrays s p of
              None \<Rightarrow> []
            | Some arr \<Rightarrow> filter (\<lambda>h. h \<noteq> MPI_DATATYPE_NULL) (take (nat n) arr)))"

definition non_null :: "ptr list \<Rightarrow> ptr list" where
  "non_null ps = filter (\<lambda>p. p \<noteq> NULL) ps"

text \<open>
  A decomposition with two receive handles (one of them null), no send handles, a region
  list of two nodes and the subset rearranger, registered as number 7 in a state that
  knows the I/O system 0.
\<close>

definition sample_iodesc :: io_desc where
  "sample_iodesc =
     \<lparr>rfrom = 30, rtype = 31, nrecvs = 2, stype = 0, num_stypes = 0, scount = 32, rcount = 33,
      sindex = 34, rindex = 0, firstregion = 1, rearranger = PIO_REARR_SUBSET,
      subset_comm = 9\<rparr>"

definition sample_decomp_state :: decomp_state where
  "sample_decomp_state =
     \<lparr>pio = sample_state, pio_iodesc_list = [7 \<mapsto> sample_iodesc],
      regions =
        [1 \<mapsto> \<lparr>region_start = 10, region_count = 0, loffset = 0, region_next = 2\<rparr>,
         2 \<mapsto> \<lparr>region_start = 0, region_count = 21, loffset = 0, region_next = 0\<rparr>],
      type_arrays = [31 \<mapsto> [0, 5]], blocks_released = [], types_freed = [],
      comms_freed = []\<rparr>"

subsection \<open>Formatted output and input\<close>

text \<open>
  The map file is written with \<^verbatim>\<open>fprintf\<close> and read with \<^verbatim>\<open>fscanf\<close>. Both are
  modelled on the characters of the file, for the directives the formats of this file
  use: white space, ordinary characters, \<^verbatim>\<open>%d\<close> and \<^verbatim>\<open>%ld\<close>.
\<close>

definition is_space :: "char \<Rightarrow> bool" where
  "is_space c \<longleftrightarrow> c \<in> set [CHR 0x20, CHR 0x09, CHR 0x0A, CHR 0x0B, CHR 0x0C, CHR 0x0D]"

definition is_digit :: "char \<Rightarrow> bool" where
  "is_digit c \<longleftrightarrow> (48::nat) \<le> of_char c \<and> (of_char c :: nat) \<le> 57"


definition digit_val :: "char \<Rightarrow> nat" where
  "digit_val c = of_char c - 48"




datatype conv_kind = Conv_d | Conv_ld

datatype directive = Lit char | White char | Conv conv_kind

text \<open>A format string as the list of its directives.\<close>

fun parse_format :: "string \<Rightarrow> directive list" where
  "parse_format [] = []"
| "parse_format [c] = (if is_space c then [White c] else [Lit c])"
| "parse_format (c # d # cs) =
     (if c = CHR ''%'' \<and> d = CHR ''d'' then Conv Conv_d # parse_format cs
      else if c = CHR ''%'' \<and> d = CHR ''l'' \<and> cs \<noteq> [] \<and> hd cs = CHR ''d''
      then Conv Conv_ld # parse_format (tl cs)
      else if is_space c then White c # parse_format (d # cs)
      else Lit c # parse_format (d # cs))"



text \<open>
  The conversion of a decimal integer: white space is skipped, a sign is accepted, then
  the longest run of digits is taken. Without a digit the conversion fails, and what was
  read stays read.
\<close>

definition digits_val :: "string \<Rightarrow> nat" where
  "digits_val ds = foldl (\<lambda>a c. 10 * a + digit_val c) 0 ds"

definition scan_int :: "string \<Rightarrow> string + int \<times> string" where
  "scan_int s =
     (let s1 = dropWhile is_space s;
          neg = (s1 \<noteq> [] \<and> hd s1 = CHR ''-'');
          s2 = (if s1 \<noteq> [] \<and> (hd s1 = CHR ''-'' \<or> hd s1 = CHR ''+'') then tl s1 else s1);
          ds = takeWhile is_digit s2
      in if ds = [] then Inl s2
         else Inr ((if neg then - int (digits_val ds) else int (digits_val ds)),
                   dropWhile is_digit s2))"



text \<open>
  What a conversion stores. The language defines no result for a number that does not
  fit; the model takes what the C library does with it: the digits are converted as by
  \<^verbatim>\<open>strtol\<close>, which stops at the ends of the 64-bit range, and \<^verbatim>\<open>%d\<close> keeps
  the low 32 bits of that as a signed number.
\<close>

definition store_conv :: "conv_kind \<Rightarrow> int \<Rightarrow> int" where
  "store_conv k v =
     (let l = max (- 9223372036854775808) (min 9223372036854775807 v)
      in case k of
           Conv_ld \<Rightarrow> l
         | Conv_d \<Rightarrow> (l + 2147483648) mod 4294967296 - 2147483648)"

text \<open>
  \<^verbatim>\<open>fscanf\<close>: the values stored before the first failure and the rest of the
  input; the code never looks at the count \<^verbatim>\<open>fscanf\<close> returns.
\<close>

datatype scanned = Scanned "int list" string

fun scan_directives :: "directive list \<Rightarrow> string \<Rightarrow> scanned" where
  "scan_directives [] s = Scanned [] s"
| "scan_directives (White c # ds) s = scan_directives ds (dropWhile is_space s)"
| "scan_directives (Lit c # ds) s =
     (case s of
        [] \<Rightarrow> Scanned [] s
      | x # xs \<Rightarrow> if x = c then scan_directives ds xs else Scanned [] s)"
| "scan_directives (Conv k # ds) s =
     (case scan_int s of
        Inl r \<Rightarrow> Scanned [] r
      | Inr (v, r) \<Rightarrow>
          (case scan_directives ds r of
             Scanned vs r' \<Rightarrow> Scanned (store_conv k v # vs) r'))"

definition fscanf :: "string \<Rightarrow> string \<Rightarrow> scanned" where
  "fscanf fmt s = scan_directives (parse_format fmt) s"

subsection \<open>Reading and writing a decomposition map\<close>

text \<open>
  \<^verbatim>\<open>PIOc_readmap\<close> as one process runs it. The arguments are the four result
  pointers and the communicator; the outside gives what \<^verbatim>\<open>fopen\<close> finds (the
  characters of the file, or nothing), which allocations succeed (by their size in bytes),
  and what the broadcasts and receives deliver on a process that is not rank 0. The
  status codes of the transport calls are not looked at by the code.
\<close>

record readmap_args =
  ndims_p :: ptr
  gdims_p :: ptr
  fmaplen_p :: ptr
  map_p :: ptr
  readmap_comm :: nat

record readmap_env =
  fopen_read :: "string option"
  alloc_ok :: "nat \<Rightarrow> bool"
  bcast_rnpes :: int
  bcast_ndims :: int
  bcast_tdims :: "int list"
  recv_maplen :: int
  recv_tmap :: "int option list"

text \<open>
  What a call leaves: the outcome, the values written through the four pointers
  (\<open>None\<close> when nothing was written; an entry of the map is \<open>None\<close> when it was
  never assigned) and the events. Of a terminated process only the events are kept.
\<close>

record readmap_result =
  rm_outcome :: outcome
  rm_ndims :: "int option"
  rm_gdims :: "int list option"
  rm_fmaplen :: "int option"
  rm_map :: "int option list option"
  rm_events :: "event list"

definition readmap_died :: "event list \<Rightarrow> string \<Rightarrow> readmap_result" where
  "readmap_died evs msg =
     \<lparr>rm_outcome = snd (piodie (Text msg)), rm_ndims = None, rm_gdims = None,
      rm_fmaplen = None, rm_map = None, rm_events = evs @ fst (piodie (Text msg))\<rparr>"

text \<open>The size in bytes of \<open>n\<close> offsets, computed in \<^verbatim>\<open>size_t\<close>.\<close>

definition offsets_size :: "int \<Rightarrow> nat" where
  "offsets_size n = nat ((n * 8) mod 2 ^ 64)"

text \<open>
  What a receive of at most \<open>n\<close> items leaves in a buffer of \<open>n\<close> items that held
  \<open>x\<close> everywhere.
\<close>

definition received :: "int \<Rightarrow> 'a \<Rightarrow> 'a list \<Rightarrow> 'a list" where
  "received n x msg = take (nat n) (msg @ replicate (nat n) x)"

text \<open>
  Lines 562 to 563: the dimension sizes; \<^verbatim>\<open>calloc\<close> has set every entry to zero,
  and an entry that is not converted stays so.
\<close>

fun read_dims :: "nat \<Rightarrow> string \<Rightarrow> (int list \<times> string) option" where
  "read_dims 0 s = Some ([], s)"
| "read_dims (Suc n) s =
     (case fscanf ''%d '' s of
        Scanned vs r \<Rightarrow>
          (case read_dims n r of
             None \<Rightarrow> None
           | Some (ds, r') \<Rightarrow> Some ((case vs of [] \<Rightarrow> 0 | v # _ \<Rightarrow> v) # ds, r')))"

text \<open>Lines 574 to 575: the offsets of one rank, into memory that \<^verbatim>\<open>malloc\<close> left unset.\<close>

fun read_entries :: "nat \<Rightarrow> string \<Rightarrow> (int option list \<times> string) option" where
  "read_entries 0 s = Some ([], s)"
| "read_entries (Suc n) s =
     (case fscanf ''%ld '' s of
        Scanned vs r \<Rightarrow>
          (case read_entries n r of
             None \<Rightarrow> None
           | Some (es, r') \<Rightarrow> Some ((case vs of [] \<Rightarrow> None | v # _ \<Rightarrow> Some v) # es, r')))"

text \<open>
  The variables the loop over the ranks carries along: \<^verbatim>\<open>j\<close> and
  \<^verbatim>\<open>maplen\<close> (unset before the first conversion), the rest of the file, what has
  been written through \<^verbatim>\<open>map\<close> and \<^verbatim>\<open>fmaplen\<close>, and the events.
\<close>

record rank_state =
  rs_j :: "int option"
  rs_maplen :: "int option"
  rs_input :: string
  rs_map :: "int option list option"
  rs_fmaplen :: "int option"
  rs_events :: "event list"

text \<open>
  Lines 568 to 584, one rank. Reading a variable that was never set has no defined
  result, and neither has the loop counter \<^verbatim>\<open>j\<close>, an \<^verbatim>\<open>int\<close>, when the length
  is beyond its range. \<open>Inl\<close> is the events of a process that died.
\<close>

definition read_rank ::
  "(nat \<Rightarrow> bool) \<Rightarrow> int \<Rightarrow> nat \<Rightarrow> int \<Rightarrow> rank_state \<Rightarrow> (event list + rank_state) option" where
  "read_rank alloc npes comm i st =
     (case fscanf ''%d %ld'' (rs_input st) of
        Scanned vs r \<Rightarrow>
          (let j = (case vs of [] \<Rightarrow> rs_j st | v # _ \<Rightarrow> Some v);
               maplen = (case vs of v # l # _ \<Rightarrow> Some l | _ \<Rightarrow> rs_maplen st)
           in case j of
                None \<Rightarrow> None
              | Some jv \<Rightarrow>
                  if jv \<noteq> i
                  then Some (Inl (rs_events st @
                         fst (piodie (Text ''Incomprehensable error reading map file ''))))
                  else
                    (case maplen of
                       None \<Rightarrow> None
                     | Some ml \<Rightarrow>
                         if \<not> alloc (offsets_size ml)
                         then Some (Inl (rs_events st @
                                fst (piodie (Text ''Memory allocation error ''))))
                         else if ml > INT_MAX then None
                         else
                           (case read_entries (nat ml) r of
                              None \<Rightarrow> None
                            | Some (tmap, r') \<Rightarrow>
                                Some (Inr
                                  (if i > 0
                                   then st\<lparr>rs_j := Some (max ml 0), rs_maplen := Some ml,
                                           rs_input := r',
                                           rs_events := rs_events st @
                                             [Ev_send (Ints [ml]) i (i + npes) comm,
                                              Ev_send (Offsets tmap) i i comm]\<rparr>
                                   else st\<lparr>rs_j := Some (max ml 0), rs_maplen := Some ml,
                                           rs_input := r', rs_map := Some tmap,
                                           rs_fmaplen := Some ml\<rparr>))))))"

text \<open>Lines 567 to 585: the loop, \<open>k\<close> ranks still to read.\<close>

fun read_ranks ::
  "(nat \<Rightarrow> bool) \<Rightarrow> int \<Rightarrow> nat \<Rightarrow> nat \<Rightarrow> int \<Rightarrow> rank_state \<Rightarrow> (event list + rank_state) option" where
  "read_ranks alloc npes comm 0 i st = Some (Inr st)"
| "read_ranks alloc npes comm (Suc k) i st =
     (case read_rank alloc npes comm i st of
        None \<Rightarrow> None
      | Some (Inl evs) \<Rightarrow> Some (Inl evs)
      | Some (Inr st') \<Rightarrow> read_ranks alloc npes comm k (i + 1) st')"

text \<open>
  Lines 558 to 586, rank 0 after the header has been checked. When the third conversion
  of the header failed, \<^verbatim>\<open>*ndims\<close> is what the caller had there, which is not part of
  the model: no result.
\<close>

definition readmap_root ::
  "readmap_env \<Rightarrow> readmap_args \<Rightarrow> int \<Rightarrow> int \<Rightarrow> int \<Rightarrow> string \<Rightarrow> readmap_result option" where
  "readmap_root e a npes rnpes ndims r =
     (let comm = readmap_comm a;
          ev = [Ev_bcast (Ints [rnpes]) 0 comm, Ev_bcast (Ints [ndims]) 0 comm]
      in if ndims < 0 \<or> \<not> alloc_ok e (nat ndims * 4)
         then Some (readmap_died ev ''Memory allocation error '')
         else
           (case read_dims (nat ndims) r of
              None \<Rightarrow> None
            | Some (tdims, r1) \<Rightarrow>
                (case read_ranks (alloc_ok e) npes comm (nat rnpes) 0
                        \<lparr>rs_j = None, rs_maplen = None, rs_input = r1, rs_map = None,
                         rs_fmaplen = None,
                         rs_events = ev @ [Ev_bcast (Ints tdims) 0 comm]\<rparr> of
                   None \<Rightarrow> None
                 | Some (Inl evs) \<Rightarrow>
                     Some \<lparr>rm_outcome = Aborted, rm_ndims = None, rm_gdims = None,
                           rm_fmaplen = None, rm_map = None, rm_events = evs\<rparr>
                 | Some (Inr st) \<Rightarrow>
                     Some \<lparr>rm_outcome = Return PIO_NOERR, rm_ndims = Some ndims,
                           rm_gdims = Some tdims, rm_fmaplen = rs_fmaplen st,
                           rm_map = rs_map st, rm_events = rs_events st\<rparr>)))"

text \<open>
  Lines 588 to 603, any other rank. The result of \<^verbatim>\<open>calloc\<close> is not checked here:
  a broadcast into a null pointer has no defined result, nor has a negative count.
\<close>

definition readmap_other ::
  "readmap_env \<Rightarrow> readmap_args \<Rightarrow> int \<Rightarrow> int \<Rightarrow> readmap_result option" where
  "readmap_other e a npes myrank =
     (let comm = readmap_comm a;
          rnpes = bcast_rnpes e;
          ndims = bcast_ndims e;
          ev = [Ev_bcast (Ints [rnpes]) 0 comm, Ev_bcast (Ints [ndims]) 0 comm]
      in if ndims < 0 \<or> (ndims > 0 \<and> \<not> alloc_ok e (nat ndims * 4)) then None
         else
           (let tdims = received ndims 0 (bcast_tdims e);
                ev1 = ev @ [Ev_bcast (Ints tdims) 0 comm]
            in if myrank < rnpes then
                 (let maplen = recv_maplen e;
                      ev2 = ev1 @ [Ev_recv 0 (myrank + npes) comm]
                  in if \<not> alloc_ok e (offsets_size maplen)
                     then Some (readmap_died ev2 ''Memory allocation error '')
                     else
                       Some \<lparr>rm_outcome = Return PIO_NOERR, rm_ndims = Some ndims,
                             rm_gdims = Some tdims, rm_fmaplen = Some maplen,
                             rm_map = Some (received maplen None (recv_tmap e)),
                             rm_events = ev2 @ [Ev_recv 0 myrank comm]\<rparr>)
               else
                 Some \<lparr>rm_outcome = Return PIO_NOERR, rm_ndims = Some ndims,
                       rm_gdims = Some tdims, rm_fmaplen = Some 0, rm_map = None,
                       rm_events = ev1\<rparr>))"

text \<open>\<^verbatim>\<open>PIOc_readmap\<close>; \<open>None\<close> is a run with no defined result.\<close>

definition PIOc_readmap ::
  "readmap_env \<Rightarrow> readmap_args \<Rightarrow> int \<Rightarrow> int \<Rightarrow> readmap_result option" where
  "PIOc_readmap e a npes myrank =
     (if ndims_p a = NULL \<or> gdims_p a = NULL \<or> fmaplen_p a = NULL \<or> map_p a = NULL
      then Some (readmap_died [] ''Invalid arg '')
      else if myrank = 0 then
        (case fopen_read e of
           None \<Rightarrow> Some (readmap_died [] ''Failed to open dof file'')
         | Some text \<Rightarrow>
             (case fscanf (''version %d npes %d ndims %d'' @ [CHR 0x0A]) text of
                Scanned vs r \<Rightarrow>
                  (case vs of
                     [] \<Rightarrow> None
                   | rversno # vs1 \<Rightarrow>
                       if rversno \<noteq> versno
                       then Some (readmap_died []
                              ''Attempt to read incompatable map file version'')
                       else
                         (case vs1 of
                            [] \<Rightarrow> None
                          | rnpes # vs2 \<Rightarrow>
                              if rnpes < 1 \<or> rnpes > npes
                              then Some (readmap_died []
                                     ''Incompatable pe count in map file '')
                              else
                                (case vs2 of
                                   [] \<Rightarrow> None
                                 | ndims # _ \<Rightarrow> readmap_root e a npes rnpes ndims r)))))
      else readmap_other e a npes myrank)"









subsection \<open>The process group\<close>

text \<open>
  The transport delivers: a receive gets the payload of the send with its destination
  and tag, a broadcast delivers the root's payload, a gather the values of all ranks in
  rank order. A process waiting for a message that rank 0 never sends, because rank 0
  was terminated, is terminated with it.
\<close>

fun sent_payload :: "event list \<Rightarrow> int \<Rightarrow> int \<Rightarrow> payload option" where
  "sent_payload [] dest tag = None"
| "sent_payload (Ev_send p d t c # evs) dest tag =
     (if d = dest \<and> t = tag then Some p else sent_payload evs dest tag)"
| "sent_payload (ev # evs) dest tag = sent_payload evs dest tag"

fun bcast_payloads :: "event list \<Rightarrow> payload list" where
  "bcast_payloads [] = []"
| "bcast_payloads (Ev_bcast p r c # evs) = p # bcast_payloads evs"
| "bcast_payloads (ev # evs) = bcast_payloads evs"



definition readmap_blocked :: readmap_result where
  "readmap_blocked =
     \<lparr>rm_outcome = Aborted, rm_ndims = None, rm_gdims = None, rm_fmaplen = None,
      rm_map = None, rm_events = []\<rparr>"

definition readmap_peer ::
  "readmap_result option \<Rightarrow> (nat \<Rightarrow> bool) \<Rightarrow> readmap_args \<Rightarrow> nat \<Rightarrow> nat
     \<Rightarrow> readmap_result option" where
  "readmap_peer root alloc a npes r =
     (case root of
        None \<Rightarrow> None
      | Some res \<Rightarrow>
          (case bcast_payloads (rm_events res) of
             [Ints [rnpes], Ints [ndims], Ints tdims] \<Rightarrow>
               (if int r < rnpes then
                  (case (sent_payload (rm_events res) (int r) (int r + int npes),
                         sent_payload (rm_events res) (int r) (int r)) of
                     (Some (Ints [l]), Some (Offsets xs)) \<Rightarrow>
                       PIOc_readmap
                         \<lparr>fopen_read = None, alloc_ok = alloc, bcast_rnpes = rnpes,
                          bcast_ndims = ndims, bcast_tdims = tdims, recv_maplen = l,
                          recv_tmap = xs\<rparr> a (int npes) (int r)
                   | _ \<Rightarrow> Some readmap_blocked)
                else
                  PIOc_readmap
                    \<lparr>fopen_read = None, alloc_ok = alloc, bcast_rnpes = rnpes,
                     bcast_ndims = ndims, bcast_tdims = tdims, recv_maplen = 0,
                     recv_tmap = []\<rparr> a (int npes) (int r))
           | _ \<Rightarrow> Some readmap_blocked))"

definition readmap_group ::
  "string option \<Rightarrow> (nat \<Rightarrow> bool) \<Rightarrow> readmap_args \<Rightarrow> nat \<Rightarrow> readmap_result option list" where
  "readmap_group file alloc a npes =
     (let root = PIOc_readmap
                   \<lparr>fopen_read = file, alloc_ok = alloc, bcast_rnpes = 0, bcast_ndims = 0,
                    bcast_tdims = [], recv_maplen = 0, recv_tmap = []\<rparr> a (int npes) 0
      in root # map (readmap_peer root alloc a npes) [1..<npes])"

text \<open>Valid result pointers and the communicator 5, for the examples.\<close>

definition sample_readmap_args :: readmap_args where
  "sample_readmap_args =
     \<lparr>ndims_p = 1, gdims_p = 2, fmaplen_p = 3, map_p = 4, readmap_comm = 5\<rparr>"

subsection \<open>The map file format\<close>








section \<open>Properties\<close>

subsection \<open>Region lists\<close>

lemma free_region_node_append:
  "free_region_node p r released = released @ free_region_node p r []"
  by (simp add: free_region_node_def brel_def Let_def)

lemma free_region_loop_chain:
  "region_chain h p ps \<Longrightarrow>
     free_region_loop h p released = Some (Inr (released @ region_blocks h ps))"
proof (induction ps arbitrary: p released)
  case Nil
  then show ?case by (simp add: free_region_loop.simps)
next
  case (Cons q qs)
  from Cons.prems obtain r where r: "h p = Some r" and pq: "p = q" and nn: "p \<noteq> NULL"
    and rest: "region_chain h (region_next r) qs"
    by (auto split: option.splits)
  have "free_region_loop h p released =
          free_region_loop h (region_next r) (free_region_node p r released)"
    using r nn by (subst free_region_loop.simps) simp
  also have "\<dots> = Some (Inr (free_region_node p r released @ region_blocks h qs))"
    by (rule Cons.IH [OF rest])
  also have "free_region_node p r released @ region_blocks h qs =
               released @ region_blocks h (q # qs)"
    using r pq free_region_node_append [of p r released] by simp
  finally show ?case .
qed

text \<open>
  Claim C9. \<^verbatim>\<open>free_region_list\<close> on a null head returns at once and hands
  nothing back; on every chain of nodes that ends in null it returns, and what it has
  handed back is, node by node, the start array when not null, the count array when not
  null, and the node itself; a null coordinate array is never passed to
  \<^verbatim>\<open>brel\<close>.
\<close>

lemma region_blocks_nodes:
  "region_chain h p ps \<Longrightarrow> set ps \<subseteq> set (region_blocks h ps)"
proof (induction ps arbitrary: p)
  case Nil
  then show ?case by simp
next
  case (Cons q qs)
  then show ?case
    by (auto simp: free_region_node_def brel_def Let_def split: option.splits)
qed

lemma region_blocks_not_null:
  "region_chain h p ps \<Longrightarrow> NULL \<notin> set (region_blocks h ps)"
proof (induction ps arbitrary: p)
  case Nil
  then show ?case by simp
next
  case (Cons q qs)
  then show ?case
    by (auto simp: free_region_node_def brel_def Let_def split: option.splits)
qed

lemma region_blocks_arrays:
  "q \<in> set ps \<Longrightarrow> h q = Some r \<Longrightarrow>
     {region_start r, region_count r} - {NULL} \<subseteq> set (region_blocks h ps)"
proof (induction ps)
  case Nil
  then show ?case by simp
next
  case (Cons a qs)
  then show ?case
    by (auto simp: free_region_node_def brel_def Let_def split: option.splits)
qed

theorem free_region_list_releases:
  "free_region_list h NULL released = Some (Inr released) \<and>
   (region_chain h topp ps \<longrightarrow>
      free_region_list h topp released = Some (Inr (released @ region_blocks h ps)) \<and>
      set ps \<subseteq> set (region_blocks h ps) \<and>
      NULL \<notin> set (region_blocks h ps) \<and>
      (\<forall>q r. q \<in> set ps \<and> h q = Some r \<longrightarrow>
         {region_start r, region_count r} - {NULL} \<subseteq> set (region_blocks h ps)))"
proof -
  have null_head: "free_region_list h NULL released = Some (Inr released)"
    by (simp add: free_region_list_def free_region_loop.simps)
  have chain: "free_region_list h topp released = Some (Inr (released @ region_blocks h ps))"
    if "region_chain h topp ps"
    using that by (simp add: free_region_list_def free_region_loop_chain)
  show ?thesis
    using null_head chain region_blocks_nodes [of h topp ps]
      region_blocks_not_null [of h topp ps] region_blocks_arrays [of _ ps h]
    by blast
qed

theorem free_region_list_releases_witness:
  "region_chain
     [1 \<mapsto> \<lparr>region_start = 10, region_count = 0, loffset = 0, region_next = 2\<rparr>,
      2 \<mapsto> \<lparr>region_start = 0, region_count = 21, loffset = 0, region_next = 0\<rparr>]
     1 [1, 2] \<and>
   free_region_list
     [1 \<mapsto> \<lparr>region_start = 10, region_count = 0, loffset = 0, region_next = 2\<rparr>,
      2 \<mapsto> \<lparr>region_start = 0, region_count = 21, loffset = 0, region_next = 0\<rparr>]
     1 [7] = Some (Inr [7, 10, 1, 21, 2])"
  using free_region_list_releases
    [of "[1 \<mapsto> \<lparr>region_start = 10, region_count = 0, loffset = 0, region_next = 2\<rparr>,
          2 \<mapsto> \<lparr>region_start = 0, region_count = 21, loffset = 0, region_next = 0\<rparr>]"
        "[7]" 1 "[1, 2]"]
  by (simp add: NULL_def free_region_node_def brel_def)

subsection \<open>Opening a file: arguments and allocation\<close>

lemmas pio_consts =
  PIO_NOERR_def NC_NOERR_def MPI_SUCCESS_def NC_EBADID_def NC_EINVAL_def NC_ENOTNC_def
  NC_ENOMEM_def NC_EIO_def PIO_EBADID_def PIO_EINVAL_def PIO_ENOMEM_def PIO_EIO_def
  PIO_EBADIOTYPE_def PIO_IOTYPE_PNETCDF_def PIO_IOTYPE_NETCDF_def PIO_IOTYPE_NETCDF4C_def
  PIO_IOTYPE_NETCDF4P_def PIO_INTERNAL_ERROR_def PIO_BCAST_ERROR_def PIO_RETURN_ERROR_def
  NULL_def

text \<open>
  Claim C4. A null cell pointer, a null type pointer or a null file name makes
  \<^verbatim>\<open>PIOc_openfile_retry\<close> return the invalid-argument code at once, with no
  event and no change of state. A backend type outside the supported range (5 above it,
  0 below it) also makes it return at once, but with the out-of-memory code, which is a
  different number.
\<close>

theorem openfile_argument_checks:
  "PIOc_openfile_retry b e st (a\<lparr>ncidp := NULL\<rparr>) = Some (openfile_early st PIO_EINVAL) \<and>
   PIOc_openfile_retry b e st (a\<lparr>iotype_p := None\<rparr>) = Some (openfile_early st PIO_EINVAL) \<and>
   PIOc_openfile_retry b e st (a\<lparr>filename := None\<rparr>) = Some (openfile_early st PIO_EINVAL) \<and>
   PIOc_openfile_retry b e st
     (a\<lparr>ncidp := 100, iotype_p := Some 5, filename := Some ''f.nc''\<rparr>) =
     Some (openfile_early st PIO_ENOMEM) \<and>
   PIOc_openfile_retry b e st
     (a\<lparr>ncidp := 100, iotype_p := Some 0, filename := Some ''f.nc''\<rparr>) =
     Some (openfile_early st PIO_ENOMEM) \<and>
   res_outcome (openfile_early st PIO_ENOMEM) = Return (- 61) \<and>
   res_outcome (openfile_early st PIO_EINVAL) = Return (- 36)"
  by (simp add: PIOc_openfile_retry_def openfile_early_def pio_consts split: option.splits)

text \<open>
  Claim C8, as stated, fails: when the file structure cannot be allocated,
  \<^verbatim>\<open>PIOc_openfile_retry\<close> hands the out-of-memory code back to its caller and
  the process goes on.
\<close>

theorem openfile_allocation_failure_returns:
  "PIOc_openfile_retry sample_build (sample_env\<lparr>malloc_file := False\<rparr>) sample_state
     sample_args =
     Some (openfile_early sample_state PIO_ENOMEM) \<and>
   res_outcome (openfile_early sample_state PIO_ENOMEM) = Return (- 61)"
  by (simp add: PIOc_openfile_retry_def openfile_early_def pio_consts sample_args_def
      sample_env_def sample_state_def pio_get_iosystem_from_id_def)

text \<open>
  Claim C8, amended. An out-of-memory condition reported through
  \<^verbatim>\<open>piomemerror\<close> ends the process, after the buffer report, the abort message
  and the stack trace: the call never returns. \<^verbatim>\<open>PIOc_openfile_retry\<close> does not
  report that way: with valid arguments and a known I/O system, a failed allocation of
  the file structure returns the out-of-memory code to the caller, with no event.
\<close>

theorem out_of_memory_policy:
  "piomemerror ios req =
     ([Ev_diag Buffer_report, Ev_diag (Abort_message (Out_of_memory req)), Ev_diag Stack_trace,
       Ev_abort], Aborted) \<and>
   (ncidp a \<noteq> NULL \<and> iotype_p a = Some t \<and> PIO_IOTYPE_PNETCDF \<le> t \<and>
    t \<le> PIO_IOTYPE_NETCDF4P \<and> filename a = Some name \<and>
    pio_get_iosystem_from_id st (iosysid a) = Some ios' \<and> \<not> malloc_file e \<longrightarrow>
      PIOc_openfile_retry b e st a = Some (openfile_early st PIO_ENOMEM) \<and>
      res_outcome (openfile_early st PIO_ENOMEM) = Return PIO_ENOMEM \<and>
      res_trace (openfile_early st PIO_ENOMEM) = [])"
  by (simp add: piomemerror_def piodie_def PIOc_openfile_retry_def openfile_early_def)

theorem out_of_memory_policy_witness:
  "ncidp sample_args \<noteq> NULL \<and> \<not> malloc_file (sample_env\<lparr>malloc_file := False\<rparr>) \<and>
   PIOc_openfile_retry sample_build (sample_env\<lparr>malloc_file := False\<rparr>) sample_state
     sample_args =
     Some (openfile_early sample_state PIO_ENOMEM)"
  using out_of_memory_policy
    [of sample_ios 8 sample_args PIO_IOTYPE_NETCDF4P "''f.nc''" sample_state sample_ios
        "sample_env\<lparr>malloc_file := False\<rparr>" sample_build]
  by (simp add: pio_consts sample_args_def sample_env_def sample_state_def
      pio_get_iosystem_from_id_def)

subsection \<open>Opening a file: the public identifier\<close>

lemma openfile_finish_cases:
  assumes "openfile_finish b e st file ierr evs = Some r"
  shows "(res_ncid r = None \<and> res_state r = st) \<or>
         (res_outcome r = Return 0 \<and> res_ncid r = Some (pio_next_ncid st) \<and>
          (\<exists>f. res_file r = Some f \<and> pio_ncid f = Some (pio_next_ncid st) \<and>
               res_state r =
                 st\<lparr>pio_next_ncid := pio_next_ncid st + 1,
                    pio_file_list := pio_file_list st @ [f]\<rparr>))"
  using assms
  by (auto simp: openfile_finish_def Let_def MPI_Bcast_int_def pio_add_to_file_list_def
      split: prod.splits if_splits)


lemma openfile_finish_failure:
  assumes "openfile_finish b e st file ierr evs = Some r" and "res_outcome r \<noteq> Return 0"
  shows "res_ncid r = None \<and> res_state r = st"
  using openfile_finish_cases [OF assms(1)] assms(2) by auto

lemma ids_below_mono: "ids_below n f \<Longrightarrow> n \<le> m \<Longrightarrow> ids_below m f"
  by (auto simp: ids_below_def split: option.splits)





lemma openfile_finish_defined:
  "pio_next_ncid st \<noteq> INT_MAX \<Longrightarrow> \<exists>r. openfile_finish b e st file ierr evs = Some r"
  by (simp add: openfile_finish_def Let_def split: prod.splits)



lemmas openfile_defs =
  PIOc_openfile_retry_def openfile_early_def openfile_init_def openfile_async_def
  openfile_params_def openfile_io_def openfile_native_def openfile_retry_step_def
  openfile_finish_def check_mpi_def check_netcdf_def netcdf_case_def pnetcdf_case_def
  piodie_def iotype_error_def MPI_Bcast_int_def store_fh_def pio_add_to_file_list_def
  pio_get_iosystem_from_id_def INT_MAX_def Let_def

lemmas sample_defs =
  sample_build_def sample_ios_def sample_state_def sample_env_def sample_args_def






subsection \<open>Opening a file: the asynchronous dispatch\<close>











subsection \<open>Opening a file: the retry with the serial classic type\<close>

lemma check_mpi_no_backend: "filter is_backend_event (fst (check_mpi b e file c)) = []"
  by (simp add: check_mpi_def check_netcdf_def piodie_def iotype_error_def Let_def
      split: prod.splits)

lemma check_netcdf_no_backend: "filter is_backend_event (fst (check_netcdf b e file c)) = []"
  by (simp add: check_netcdf_def piodie_def iotype_error_def Let_def)

lemma openfile_params_no_backend:
  "filter is_backend_event (fst (openfile_params e ios file name)) = []"
  by (simp add: openfile_params_def)

lemma openfile_async_no_backend:
  "filter is_backend_event (fst (openfile_async b e ios file name)) = []"
  by (simp add: openfile_async_def Let_def case_prod_beta MPI_Bcast_int_def
      check_mpi_no_backend openfile_params_no_backend)

lemma openfile_finish_backend:
  "openfile_finish b e st file ierr evs = Some r \<Longrightarrow>
     filter is_backend_event (res_trace r) = filter is_backend_event evs"
  by (auto simp: openfile_finish_def Let_def case_prod_beta MPI_Bcast_int_def
      check_mpi_no_backend check_netcdf_no_backend split: if_splits)

lemma openfile_finish_file:
  "openfile_finish b e st file ierr evs = Some r \<Longrightarrow>
     \<exists>f. res_file r = Some f \<and> iotype f = iotype file"
  by (auto simp: openfile_finish_def Let_def case_prod_beta MPI_Bcast_int_def
      split: if_splits)

lemma check_netcdf_outcome:
  assumes "mpi_recv e Bcast_status = None \<or> mpi_recv e Bcast_status = Some status"
    and "netcdf_case b (iotype file) \<or> pnetcdf_case b (iotype file)"
    and "status \<noteq> 0"
  shows "snd (check_netcdf b e file status) =
           (if error_handler (iosystem file) = PIO_INTERNAL_ERROR then Aborted
            else Return status)"
  using assms
  by (auto simp: check_netcdf_def Let_def piodie_def MPI_Bcast_int_def NC_NOERR_def)

lemma openfile_finish_outcome:
  assumes "openfile_finish b e st file ierr evs = Some r"
    and "mpi_rc e Bcast_ierr = 0" and "mpi_rc e Bcast_file_mode = 0"
  shows "res_outcome r =
           (if snd (MPI_Bcast_int e Bcast_ierr ierr) = 0 then Return 0
            else snd (check_netcdf b e file (snd (MPI_Bcast_int e Bcast_ierr ierr))))"
  using assms
  by (auto simp: openfile_finish_def Let_def case_prod_beta MPI_Bcast_int_def
      split: if_splits)

lemma openfile_native_iotype:
  "iotype (snd (snd (openfile_native b e ios file name))) = iotype file"
  by (simp add: openfile_native_def store_fh_def Let_def split: option.splits)

lemma openfile_native_case:
  assumes "fst (snd (openfile_native b e ios file name)) = NC_ENOTNC \<or>
           fst (snd (openfile_native b e ios file name)) = NC_EINVAL"
  shows "netcdf_case b (iotype file) \<or> pnetcdf_case b (iotype file)"
  using assms
  by (auto simp: openfile_native_def netcdf_case_def pnetcdf_case_def iotype_error_def
      Let_def pio_consts split: if_splits)

lemma openfile_native_iosystem:
  "iosystem (snd (snd (openfile_native b e ios file name))) = iosystem file"
  by (simp add: openfile_native_def store_fh_def Let_def split: option.splits)

lemma store_fh_fields:
  "iotype (store_fh e c file) = iotype file" "iosystem (store_fh e c file) = iosystem file"
  "file_mode (store_fh e c file) = file_mode file"
  by (simp_all add: store_fh_def split: option.splits)

text \<open>
  Claim C1, as stated, fails. With the abort handling mode and no retry, the failed open
  is not returned: the process is terminated. With retry, a serial open that succeeds
  does not make the call succeed when the broadcast of the outcome fails on the process:
  the transport code is returned. In a build without netCDF the retry is not compiled
  in: the failed open of the parallel-netCDF type is returned with the type untouched.
\<close>

theorem openfile_retry_status_limits:
  "map_option res_outcome
     (PIOc_openfile_retry sample_build sample_retry_env sample_abort_state
        (sample_args\<lparr>retry := 0\<rparr>)) = Some Aborted \<and>
   backend_rc sample_retry_env Retry_open = 0 \<and>
   map_option res_outcome
     (PIOc_openfile_retry sample_build
        (sample_retry_env\<lparr>mpi_rc := (\<lambda>c. if c = Bcast_ierr then 5 else 0)\<rparr>)
        sample_state sample_args) = Some (Return PIO_EIO) \<and>
   map_option res_outcome
     (PIOc_openfile_retry (sample_build\<lparr>has_NETCDF := False\<rparr>) sample_retry_env sample_state
        (sample_args\<lparr>iotype_p := Some PIO_IOTYPE_PNETCDF\<rparr>)) = Some (Return NC_ENOTNC) \<and>
   map_option (map_option iotype \<circ> res_file)
     (PIOc_openfile_retry (sample_build\<lparr>has_NETCDF := False\<rparr>) sample_retry_env sample_state
        (sample_args\<lparr>iotype_p := Some PIO_IOTYPE_PNETCDF\<rparr>)) =
     Some (Some PIO_IOTYPE_PNETCDF)"
  by (simp add: openfile_defs sample_defs sample_retry_env_def sample_abort_state_def
      pio_consts)

text \<open>
  Claim C1, amended. Take an I/O process in a build with netCDF, with valid arguments,
  past the dispatch, whose native open ends with the not-this-format or the
  invalid-argument code, for a requested type that is not the serial classic one.

  With retry: the outcome is set to no-error and the backend type of the file structure
  to the serial classic type; the serial open is called if and only if the rank in the
  I/O group is zero, and that is the only backend call after the native open, whatever
  the serial open answers; the outcome held then is the serial open's on rank zero and
  no-error elsewhere. When no transport call fails, the call returns zero exactly when
  the code held after the broadcast from the I/O root (the serial open's on the root,
  the root's elsewhere) is zero; otherwise this code is returned, or the process is
  terminated under the abort handling mode. Under the broadcast handling mode the
  failed code is broadcast once more from the I/O root, which delivers the same code.

  Without retry: the backend type of the file structure is the requested one, no backend
  call follows the native open, and when no transport call fails the code held after the
  broadcast from the I/O root (the native open's own on the root) is returned unchanged,
  or the process is terminated under the abort handling mode when it is not zero.
\<close>

theorem openfile_retry_downgrade:
  fixes ios :: iosystem_desc and t :: int and a :: openfile_args and e :: env
    and name :: string and b :: build and st :: pio_state and held c c0 :: int
  defines "held \<equiv> (if io_rank ios = 0 then backend_rc e Retry_open else PIO_NOERR)"
    and "c \<equiv> (case mpi_recv e Bcast_ierr of
                None \<Rightarrow> (if io_rank ios = 0 then backend_rc e Retry_open else PIO_NOERR)
              | Some w \<Rightarrow> w)"
  assumes "ncidp a \<noteq> NULL" and "iotype_p a = Some t" and "PIO_IOTYPE_PNETCDF \<le> t"
    and "t \<le> PIO_IOTYPE_NETCDF4P" and "filename a = Some name"
    and "pio_get_iosystem_from_id st (iosysid a) = Some ios" and "malloc_file e"
    and counter: "pio_next_ncid st \<noteq> INT_MAX"
    and async: "snd (openfile_async b e ios (openfile_init ios t (mode a)) name) = None"
    and io: "ioproc ios" and nc: "has_NETCDF b"
    and native: "openfile_native b e ios (openfile_init ios t (mode a)) name = (evn, ierr, file1)"
    and fails: "ierr = NC_ENOTNC \<or> ierr = NC_EINVAL"
    and notserial: "t \<noteq> PIO_IOTYPE_NETCDF"
    and c0: "c0 = (case mpi_recv e Bcast_ierr of None \<Rightarrow> ierr | Some w \<Rightarrow> w)"
  shows
    "(retry a \<noteq> 0 \<longrightarrow>
        fst (snd (openfile_io b e ios (openfile_init ios t (mode a)) name (retry a))) = held \<and>
        (\<exists>r f. PIOc_openfile_retry b e st a = Some r \<and> res_file r = Some f \<and>
           iotype f = PIO_IOTYPE_NETCDF \<and>
           filter is_backend_event (res_trace r) =
             filter is_backend_event evn @
             (if io_rank ios = 0 then [Ev_nc_open name (file_mode file1)] else []) \<and>
           (mpi_rc e Bcast_ierr = 0 \<and> mpi_rc e Bcast_file_mode = 0 \<and>
            (mpi_recv e Bcast_status = None \<or> mpi_recv e Bcast_status = Some c) \<longrightarrow>
              res_outcome r =
                (if c = 0 then Return 0
                 else if error_handler ios = PIO_INTERNAL_ERROR then Aborted
                 else Return c)))) \<and>
     (retry a = 0 \<longrightarrow>
        (\<exists>r f. PIOc_openfile_retry b e st a = Some r \<and> res_file r = Some f \<and>
           iotype f = t \<and>
           filter is_backend_event (res_trace r) = filter is_backend_event evn \<and>
           (mpi_rc e Bcast_ierr = 0 \<and> mpi_rc e Bcast_file_mode = 0 \<and>
            (mpi_recv e Bcast_status = None \<or> mpi_recv e Bcast_status = Some c0) \<longrightarrow>
              res_outcome r =
                (if c0 = 0 then Return 0
                 else if error_handler ios = PIO_INTERNAL_ERROR then Aborted
                 else Return c0))))"
proof -
  define fl0 where "fl0 = openfile_init ios t (mode a)"
  obtain ev1 where a1: "openfile_async b e ios fl0 name = (ev1, None)"
    using async by (cases "openfile_async b e ios fl0 name") (simp add: fl0_def)
  have nb1: "filter is_backend_event ev1 = []"
    using openfile_async_no_backend [of b e ios fl0 name] a1 by simp
  have nat: "openfile_native b e ios fl0 name = (evn, ierr, file1)"
    using native by (simp add: fl0_def)
  have ft: "iotype file1 = t"
    using openfile_native_iotype [of b e ios fl0 name] nat by (simp add: fl0_def openfile_init_def)
  have fi: "iosystem file1 = ios"
    using openfile_native_iosystem [of b e ios fl0 name] nat
    by (simp add: fl0_def openfile_init_def)
  have cs: "netcdf_case b t \<or> pnetcdf_case b t"
    using openfile_native_case [of b e ios fl0 name] nat fails
    by (simp add: fl0_def openfile_init_def)
  have top: "PIOc_openfile_retry b e st a =
      openfile_finish b e st (snd (snd (openfile_io b e ios fl0 name (retry a))))
        (fst (snd (openfile_io b e ios fl0 name (retry a))))
        (ev1 @ fst (openfile_io b e ios fl0 name (retry a)))"
    using assms(3-9) a1
    by (simp add: PIOc_openfile_retry_def Let_def fl0_def [symmetric] case_prod_beta)
  have cc: "c = snd (MPI_Bcast_int e Bcast_ierr held)"
    by (simp add: c_def held_def MPI_Bcast_int_def)
  have cc0: "c0 = snd (MPI_Bcast_int e Bcast_ierr ierr)"
    by (simp add: c0 MPI_Bcast_int_def)
  have with_retry: "fst (snd (openfile_io b e ios (openfile_init ios t (mode a)) name (retry a))) = held \<and>
        (\<exists>r f. PIOc_openfile_retry b e st a = Some r \<and> res_file r = Some f \<and>
           iotype f = PIO_IOTYPE_NETCDF \<and>
           filter is_backend_event (res_trace r) =
             filter is_backend_event evn @
             (if io_rank ios = 0 then [Ev_nc_open name (file_mode file1)] else []) \<and>
           (mpi_rc e Bcast_ierr = 0 \<and> mpi_rc e Bcast_file_mode = 0 \<and>
            (mpi_recv e Bcast_status = None \<or> mpi_recv e Bcast_status = Some c) \<longrightarrow>
              res_outcome r =
                (if c = 0 then Return 0
                 else if error_handler ios = PIO_INTERNAL_ERROR then Aborted
                 else Return c)))"
    if rt: "retry a \<noteq> 0"
  proof -
    let ?open = "(if io_rank ios = 0 then [Ev_nc_open name (file_mode file1)] else [])"
    let ?notice = "(if iomaster ios \<noteq> 0 then [Ev_diag Retry_notice] else [])"
    let ?file2 = "(if io_rank ios = 0
                   then store_fh e Retry_open (file1\<lparr>iotype := PIO_IOTYPE_NETCDF\<rparr>)
                   else file1\<lparr>iotype := PIO_IOTYPE_NETCDF\<rparr>)"
    have step: "openfile_io b e ios fl0 name (retry a) = (evn @ ?notice @ ?open, held, ?file2)"
      using rt io nc nat fails notserial ft
      by (simp add: openfile_io_def openfile_retry_step_def Let_def held_def)
    have t2: "iotype ?file2 = PIO_IOTYPE_NETCDF" and i2: "iosystem ?file2 = ios"
      using fi by (simp_all add: store_fh_fields)
    have c2: "netcdf_case b (iotype ?file2) \<or> pnetcdf_case b (iotype ?file2)"
      using nc by (simp only: t2) (simp add: netcdf_case_def)
    obtain r where r: "openfile_finish b e st ?file2 held (ev1 @ evn @ ?notice @ ?open) = Some r"
      using openfile_finish_defined [OF counter] by blast
    have pr: "PIOc_openfile_retry b e st a = Some r"
      using top step r by simp
    obtain f where f: "res_file r = Some f" "iotype f = PIO_IOTYPE_NETCDF"
      using openfile_finish_file [OF r] t2 by auto
    have tr: "filter is_backend_event (res_trace r) = filter is_backend_event evn @ ?open"
      using openfile_finish_backend [OF r] nb1 by simp
    have out: "res_outcome r =
                (if c = 0 then Return 0
                 else if error_handler ios = PIO_INTERNAL_ERROR then Aborted
                 else Return c)"
      if "mpi_rc e Bcast_ierr = 0" "mpi_rc e Bcast_file_mode = 0"
        "mpi_recv e Bcast_status = None \<or> mpi_recv e Bcast_status = Some c"
    proof (cases "c = 0")
      case True
      with openfile_finish_outcome [OF r that(1,2)] cc show ?thesis by simp
    next
      case False
      have "snd (check_netcdf b e ?file2 c) =
              (if error_handler (iosystem ?file2) = PIO_INTERNAL_ERROR then Aborted
               else Return c)"
        by (rule check_netcdf_outcome [OF that(3) c2 False])
      with openfile_finish_outcome [OF r that(1,2)] False i2 cc show ?thesis by simp
    qed
    have held': "fst (snd (openfile_io b e ios (openfile_init ios t (mode a)) name (retry a))) = held"
      using step by (simp add: fl0_def)
    have ex: "\<exists>r f. PIOc_openfile_retry b e st a = Some r \<and> res_file r = Some f \<and>
           iotype f = PIO_IOTYPE_NETCDF \<and>
           filter is_backend_event (res_trace r) = filter is_backend_event evn @ ?open \<and>
           (mpi_rc e Bcast_ierr = 0 \<and> mpi_rc e Bcast_file_mode = 0 \<and>
            (mpi_recv e Bcast_status = None \<or> mpi_recv e Bcast_status = Some c) \<longrightarrow>
              res_outcome r =
                (if c = 0 then Return 0
                 else if error_handler ios = PIO_INTERNAL_ERROR then Aborted
                 else Return c))"
    proof (intro exI conjI impI)
      show "PIOc_openfile_retry b e st a = Some r" by (rule pr)
      show "res_file r = Some f" by (rule f(1))
      show "iotype f = PIO_IOTYPE_NETCDF" by (rule f(2))
      show "filter is_backend_event (res_trace r) = filter is_backend_event evn @ ?open"
        by (rule tr)
      show "res_outcome r =
                (if c = 0 then Return 0
                 else if error_handler ios = PIO_INTERNAL_ERROR then Aborted
                 else Return c)"
        if "mpi_rc e Bcast_ierr = 0 \<and> mpi_rc e Bcast_file_mode = 0 \<and>
            (mpi_recv e Bcast_status = None \<or> mpi_recv e Bcast_status = Some c)"
        using that by (intro out) simp_all
    qed
    from held' ex show ?thesis by (intro conjI)
  qed
  have without_retry: "\<exists>r f. PIOc_openfile_retry b e st a = Some r \<and> res_file r = Some f \<and>
           iotype f = t \<and>
           filter is_backend_event (res_trace r) = filter is_backend_event evn \<and>
           (mpi_rc e Bcast_ierr = 0 \<and> mpi_rc e Bcast_file_mode = 0 \<and>
            (mpi_recv e Bcast_status = None \<or> mpi_recv e Bcast_status = Some c0) \<longrightarrow>
              res_outcome r =
                (if c0 = 0 then Return 0
                 else if error_handler ios = PIO_INTERNAL_ERROR then Aborted
                 else Return c0))"
    if rt: "retry a = 0"
  proof -
    have step: "openfile_io b e ios fl0 name (retry a) = (evn, ierr, file1)"
      using rt io nat by (simp add: openfile_io_def openfile_retry_step_def Let_def)
    obtain r where r: "openfile_finish b e st file1 ierr (ev1 @ evn) = Some r"
      using openfile_finish_defined [OF counter] by blast
    have pr: "PIOc_openfile_retry b e st a = Some r"
      using top step r by simp
    obtain f where f: "res_file r = Some f" "iotype f = t"
      using openfile_finish_file [OF r] ft by auto
    have tr: "filter is_backend_event (res_trace r) = filter is_backend_event evn"
      using openfile_finish_backend [OF r] nb1 by simp
    have out: "res_outcome r =
                (if c0 = 0 then Return 0
                 else if error_handler ios = PIO_INTERNAL_ERROR then Aborted
                 else Return c0)"
      if "mpi_rc e Bcast_ierr = 0" "mpi_rc e Bcast_file_mode = 0"
        "mpi_recv e Bcast_status = None \<or> mpi_recv e Bcast_status = Some c0"
    proof (cases "c0 = 0")
      case True
      with openfile_finish_outcome [OF r that(1,2)] cc0 show ?thesis by simp
    next
      case False
      have c1: "netcdf_case b (iotype file1) \<or> pnetcdf_case b (iotype file1)"
        using cs ft by simp
      have "snd (check_netcdf b e file1 c0) =
              (if error_handler (iosystem file1) = PIO_INTERNAL_ERROR then Aborted
               else Return c0)"
        by (rule check_netcdf_outcome [OF that(3) c1 False])
      with openfile_finish_outcome [OF r that(1,2)] False fi cc0 show ?thesis by simp
    qed
    show ?thesis
    proof (intro exI conjI impI)
      show "PIOc_openfile_retry b e st a = Some r" by (rule pr)
      show "res_file r = Some f" by (rule f(1))
      show "iotype f = t" by (rule f(2))
      show "filter is_backend_event (res_trace r) = filter is_backend_event evn"
        by (rule tr)
      show "res_outcome r =
                (if c0 = 0 then Return 0
                 else if error_handler ios = PIO_INTERNAL_ERROR then Aborted
                 else Return c0)"
        if "mpi_rc e Bcast_ierr = 0 \<and> mpi_rc e Bcast_file_mode = 0 \<and>
            (mpi_recv e Bcast_status = None \<or> mpi_recv e Bcast_status = Some c0)"
        using that by (intro out) simp_all
    qed
  qed
  show ?thesis
  proof (rule conjI)
    show "retry a \<noteq> 0 \<longrightarrow>
        fst (snd (openfile_io b e ios (openfile_init ios t (mode a)) name (retry a))) = held \<and>
        (\<exists>r f. PIOc_openfile_retry b e st a = Some r \<and> res_file r = Some f \<and>
           iotype f = PIO_IOTYPE_NETCDF \<and>
           filter is_backend_event (res_trace r) =
             filter is_backend_event evn @
             (if io_rank ios = 0 then [Ev_nc_open name (file_mode file1)] else []) \<and>
           (mpi_rc e Bcast_ierr = 0 \<and> mpi_rc e Bcast_file_mode = 0 \<and>
            (mpi_recv e Bcast_status = None \<or> mpi_recv e Bcast_status = Some c) \<longrightarrow>
              res_outcome r =
                (if c = 0 then Return 0
                 else if error_handler ios = PIO_INTERNAL_ERROR then Aborted
                 else Return c)))"
      by (rule impI) (erule with_retry)
    show "retry a = 0 \<longrightarrow>
        (\<exists>r f. PIOc_openfile_retry b e st a = Some r \<and> res_file r = Some f \<and>
           iotype f = t \<and>
           filter is_backend_event (res_trace r) = filter is_backend_event evn \<and>
           (mpi_rc e Bcast_ierr = 0 \<and> mpi_rc e Bcast_file_mode = 0 \<and>
            (mpi_recv e Bcast_status = None \<or> mpi_recv e Bcast_status = Some c0) \<longrightarrow>
              res_outcome r =
                (if c0 = 0 then Return 0
                 else if error_handler ios = PIO_INTERNAL_ERROR then Aborted
                 else Return c0)))"
      by (rule impI) (erule without_retry)
  qed
qed

theorem openfile_retry_downgrade_witness:
  "ioproc sample_ios \<and> has_NETCDF sample_build \<and> retry sample_args \<noteq> 0 \<and>
   openfile_native sample_build sample_retry_env sample_ios
     (openfile_init sample_ios PIO_IOTYPE_NETCDF4P (mode sample_args)) ''f.nc'' =
     ([Ev_nc_open_par ''f.nc'' 8192 2 0], NC_ENOTNC,
      \<lparr>iosystem = sample_ios, fh = - 1, pio_ncid = None, iotype = 4, file_mode = 8192,
       do_io = 1\<rparr>) \<and>
   (\<exists>r f. PIOc_openfile_retry sample_build sample_retry_env sample_state sample_args = Some r \<and>
      res_file r = Some f \<and> iotype f = PIO_IOTYPE_NETCDF \<and>
      filter is_backend_event (res_trace r) =
        [Ev_nc_open_par ''f.nc'' 8192 2 0, Ev_nc_open ''f.nc'' 8192] \<and>
      res_outcome r = Return 0)"
proof -
  have h1: "ncidp sample_args \<noteq> NULL" and h2: "iotype_p sample_args = Some PIO_IOTYPE_NETCDF4P"
    and h3: "PIO_IOTYPE_PNETCDF \<le> PIO_IOTYPE_NETCDF4P"
    and h4: "PIO_IOTYPE_NETCDF4P \<le> PIO_IOTYPE_NETCDF4P"
    and h5: "filename sample_args = Some ''f.nc''"
    and h6: "pio_get_iosystem_from_id sample_state (iosysid sample_args) = Some sample_ios"
    and h7: "malloc_file sample_retry_env"
    and h8: "pio_next_ncid sample_state \<noteq> INT_MAX"
    and h10: "ioproc sample_ios" and h11: "has_NETCDF sample_build"
    and h13: "NC_ENOTNC = NC_ENOTNC \<or> NC_ENOTNC = NC_EINVAL"
    and h14: "PIO_IOTYPE_NETCDF4P \<noteq> PIO_IOTYPE_NETCDF"
    and rt: "retry sample_args \<noteq> 0"
    by (simp_all add: sample_defs sample_retry_env_def pio_consts pio_get_iosystem_from_id_def
        INT_MAX_def)
  have h9: "snd (openfile_async sample_build sample_retry_env sample_ios
              (openfile_init sample_ios PIO_IOTYPE_NETCDF4P (mode sample_args)) ''f.nc'') = None"
    by (simp add: openfile_async_def sample_ios_def)
  have h12: "openfile_native sample_build sample_retry_env sample_ios
     (openfile_init sample_ios PIO_IOTYPE_NETCDF4P (mode sample_args)) ''f.nc'' =
     ([Ev_nc_open_par ''f.nc'' 8192 2 0], NC_ENOTNC,
      \<lparr>iosystem = sample_ios, fh = - 1, pio_ncid = None, iotype = 4, file_mode = 8192,
       do_io = 1\<rparr>)"
    by (simp add: openfile_native_def openfile_init_def store_fh_def sample_defs
        sample_retry_env_def pio_consts NC_MPIIO_def Let_def)
  have h15: "NC_ENOTNC = (case mpi_recv sample_retry_env Bcast_ierr of
                            None \<Rightarrow> NC_ENOTNC | Some w \<Rightarrow> w)"
    by (simp add: sample_retry_env_def)
  have "\<exists>r f. PIOc_openfile_retry sample_build sample_retry_env sample_state sample_args = Some r \<and>
      res_file r = Some f \<and> iotype f = PIO_IOTYPE_NETCDF \<and>
      filter is_backend_event (res_trace r) =
        [Ev_nc_open_par ''f.nc'' 8192 2 0, Ev_nc_open ''f.nc'' 8192] \<and>
      res_outcome r = Return 0"
    using openfile_retry_downgrade [OF h1 h2 h3 h4 h5 h6 h7 h8 h9 h10 h11 h12 h13 h14 h15]
    by (simp add: openfile_defs sample_defs sample_retry_env_def pio_consts NC_MPIIO_def)
  with h10 h11 rt h12 show ?thesis by (intro conjI)
qed

text \<open>
  The comments of the retry block say that the outcome and the type are reset on all
  tasks. For the serial netCDF-4 type only rank zero of the I/O group opens the file, so
  only this process holds the failure: its file structure ends with the serial classic
  type, while the second I/O process of the same call keeps the netCDF-4 type.
\<close>

lemma openfile_retry_second_process_keeps_type:
  "map_option (map_option iotype \<circ> res_file)
     (PIOc_openfile_retry sample_build sample_retry_env sample_state
        (sample_args\<lparr>iotype_p := Some PIO_IOTYPE_NETCDF4C\<rparr>)) =
     Some (Some PIO_IOTYPE_NETCDF) \<and>
   map_option (map_option iotype \<circ> res_file)
     (PIOc_openfile_retry sample_build (sample_retry_env\<lparr>mpi_recv := mpi_recv sample_comp_env\<rparr>)
        sample_second_state (sample_args\<lparr>iotype_p := Some PIO_IOTYPE_NETCDF4C\<rparr>)) =
     Some (Some PIO_IOTYPE_NETCDF4C)"
  by (simp add: openfile_defs sample_defs sample_retry_env_def sample_second_ios_def
      sample_second_state_def sample_comp_env_def pio_consts)

subsection \<open>Freeing a decomposition\<close>

lemma fold_free_type_at:
  "n \<le> length arr \<Longrightarrow>
     fold free_type_at [0..<n] (arr, freed) =
       (replicate n MPI_DATATYPE_NULL @ drop n arr,
        freed @ filter (\<lambda>h. h \<noteq> MPI_DATATYPE_NULL) (take n arr))"
proof (induction n)
  case 0
  then show ?case by simp
next
  case (Suc n)
  then have n: "n < length arr" by simp
  have nth: "(replicate n MPI_DATATYPE_NULL @ drop n arr) ! n = arr ! n"
    using n by (simp add: nth_append)
  have upd: "(replicate n MPI_DATATYPE_NULL @ drop n arr)[n := MPI_DATATYPE_NULL] =
               replicate (Suc n) MPI_DATATYPE_NULL @ drop (Suc n) arr"
    using n by (simp add: list_update_append replicate_append_same
        Cons_nth_drop_Suc [symmetric])
  have same: "replicate n MPI_DATATYPE_NULL @ drop n arr =
                replicate (Suc n) MPI_DATATYPE_NULL @ drop (Suc n) arr"
    if "arr ! n = MPI_DATATYPE_NULL"
    using n that by (simp add: replicate_append_same Cons_nth_drop_Suc [symmetric])
  have tk: "take (Suc n) arr = take n arr @ [arr ! n]"
    using n by (simp add: take_Suc_conv_app_nth)
  show ?case
    using Suc.IH n nth upd same tk
    by (simp add: free_type_at_def Let_def del: replicate_Suc)
qed

lemma free_type_array_null: "free_type_array NULL n s = Inr s"
  by (simp add: free_type_array_def)

lemma free_type_array_ok:
  assumes "array_ok s p n"
  shows "\<exists>ta. free_type_array p n s =
           Inr (s\<lparr>type_arrays := ta,
                   types_freed := types_freed s @ live_handles s p n,
                   blocks_released := blocks_released s @ non_null [p]\<rparr>) \<and>
         (\<forall>q. q \<noteq> p \<longrightarrow> ta q = type_arrays s q)"
proof (cases "p = NULL")
  case True
  then show ?thesis
    by (intro exI [of _ "type_arrays s"])
      (simp add: free_type_array_def live_handles_def non_null_def)
next
  case False
  with assms obtain arr where arr: "type_arrays s p = Some arr" "nat n \<le> length arr"
    by (auto simp: array_ok_def split: option.splits)
  show ?thesis
    using False arr
    by (intro exI [of _ "(type_arrays s)(p \<mapsto> replicate (nat n) MPI_DATATYPE_NULL @
                                              drop (nat n) arr)"])
      (simp add: free_type_array_def live_handles_def non_null_def fold_free_type_at brel_def)
qed

lemma brel_field_eq:
  "brel_field p s = s\<lparr>blocks_released := blocks_released s @ non_null [p]\<rparr>"
  by (simp add: brel_field_def non_null_def brel_def)

lemma non_null_append: "non_null (xs @ ys) = non_null xs @ non_null ys"
  by (simp add: non_null_def)

lemma non_null_Cons: "non_null (x # y # ys) = non_null [x] @ non_null (y # ys)"
  by (simp add: non_null_def)

lemma brel_field_proj:
  "pio (brel_field p s) = pio s" "pio_iodesc_list (brel_field p s) = pio_iodesc_list s"
  "regions (brel_field p s) = regions s" "type_arrays (brel_field p s) = type_arrays s"
  "types_freed (brel_field p s) = types_freed s" "comms_freed (brel_field p s) = comms_freed s"
  "blocks_released (brel_field p s) = blocks_released s @ non_null [p]"
  by (simp_all add: brel_field_eq)

lemma array_ok_cong:
  "type_arrays s' p = type_arrays s p \<Longrightarrow> array_ok s' p n = array_ok s p n"
  by (simp add: array_ok_def)

lemma live_handles_cong:
  "type_arrays s' p = type_arrays s p \<Longrightarrow> live_handles s' p n = live_handles s p n"
  by (simp add: live_handles_def)

lemma free_region_list_field:
  assumes "region_chain h p ps"
  shows "(if p \<noteq> NULL then free_region_list h p rel else Some (Inr rel)) =
           Some (Inr (rel @ region_blocks h ps))"
proof (cases "p = NULL")
  case True
  with assms have "ps = []" by (cases ps) simp_all
  with True show ?thesis by simp
next
  case False
  then show ?thesis
    using assms by (simp add: free_region_list_def free_region_loop_chain)
qed

lemma PIOc_freedecomp_unknown:
  "pio_get_iosystem_from_id (pio s) sysid = None \<or> pio_iodesc_list s ioid = None \<Longrightarrow>
     PIOc_freedecomp s sysid ioid = Some (Inr (PIO_EBADID, s))"
  by (auto simp: PIOc_freedecomp_def pio_get_iodesc_from_id_def split: option.splits)

lemma PIOc_freedecomp_live:
  assumes ios: "pio_get_iosystem_from_id (pio s) sysid = Some ios"
    and d: "pio_iodesc_list s ioid = Some d"
    and rt: "array_ok s (rtype d) (nrecvs d)"
    and st: "array_ok s (stype d) (num_stypes d)"
    and diff: "stype d = NULL \<or> rtype d \<noteq> stype d"
    and chain: "region_chain (regions s) (firstregion d) ps"
  shows "\<exists>s'. PIOc_freedecomp s sysid ioid = Some (Inr (PIO_NOERR, s')) \<and>
           blocks_released s' =
             blocks_released s @
             non_null [rfrom d, rtype d, stype d, scount d, rcount d, sindex d, rindex d] @
             region_blocks (regions s) ps \<and>
           types_freed s' =
             types_freed s @ live_handles s (rtype d) (nrecvs d) @
             live_handles s (stype d) (num_stypes d) \<and>
           comms_freed s' =
             comms_freed s @ (if rearranger d = PIO_REARR_SUBSET then [subset_comm d] else []) \<and>
           pio_iodesc_list s' = (pio_iodesc_list s)(ioid := None) \<and>
           pio s' = pio s \<and> regions s' = regions s"
proof -
  define s1 where "s1 = brel_field (rfrom d) s"
  have rt1: "array_ok s1 (rtype d) (nrecvs d)"
    using rt array_ok_cong [of s1 "rtype d" s "nrecvs d"] by (simp add: s1_def brel_field_proj)
  obtain ta where r2: "free_type_array (rtype d) (nrecvs d) s1 =
      Inr (s1\<lparr>type_arrays := ta,
              types_freed := types_freed s1 @ live_handles s1 (rtype d) (nrecvs d),
              blocks_released := blocks_released s1 @ non_null [rtype d]\<rparr>)"
    and ta: "\<forall>q. q \<noteq> rtype d \<longrightarrow> ta q = type_arrays s1 q"
    using free_type_array_ok [OF rt1] by blast
  define s2 where "s2 = s1\<lparr>type_arrays := ta,
              types_freed := types_freed s1 @ live_handles s1 (rtype d) (nrecvs d),
              blocks_released := blocks_released s1 @ non_null [rtype d]\<rparr>"
  have lh1: "live_handles s1 (rtype d) (nrecvs d) = live_handles s (rtype d) (nrecvs d)"
    using live_handles_cong [of s1 "rtype d" s "nrecvs d"] by (simp add: s1_def brel_field_proj)
  have tas: "type_arrays s2 (stype d) = type_arrays s (stype d)" if "rtype d \<noteq> stype d"
    using ta that by (simp add: s2_def s1_def brel_field_proj)
  have st2: "array_ok s2 (stype d) (num_stypes d)"
  proof (cases "stype d = NULL")
    case True
    then show ?thesis by (simp add: array_ok_def)
  next
    case False
    with diff have "rtype d \<noteq> stype d" by simp
    then show ?thesis using st by (simp add: array_ok_cong [OF tas])
  qed
  have lh2: "live_handles s2 (stype d) (num_stypes d) = live_handles s (stype d) (num_stypes d)"
  proof (cases "stype d = NULL")
    case True
    then show ?thesis by (simp add: live_handles_def)
  next
    case False
    with diff have "rtype d \<noteq> stype d" by simp
    then show ?thesis by (intro live_handles_cong tas)
  qed
  obtain tb where r3: "free_type_array (stype d) (num_stypes d) s2 =
      Inr (s2\<lparr>type_arrays := tb,
              types_freed := types_freed s2 @ live_handles s2 (stype d) (num_stypes d),
              blocks_released := blocks_released s2 @ non_null [stype d]\<rparr>)"
    using free_type_array_ok [OF st2] by blast
  define s3 where "s3 = s2\<lparr>type_arrays := tb,
              types_freed := types_freed s2 @ live_handles s2 (stype d) (num_stypes d),
              blocks_released := blocks_released s2 @ non_null [stype d]\<rparr>"
  define s3' where "s3' = (if stype d \<noteq> NULL
               then s3\<lparr>pio_iodesc_list := (pio_iodesc_list s3)(ioid \<mapsto> d\<lparr>num_stypes := 0\<rparr>)\<rparr>
               else s3)"
  define s7 where "s7 = brel_field (rindex d) (brel_field (sindex d) (brel_field (rcount d)
               (brel_field (scount d) s3')))"
  have p1: "pio s1 = pio s" "regions s1 = regions s" "types_freed s1 = types_freed s"
    "comms_freed s1 = comms_freed s"
    "blocks_released s1 = blocks_released s @ non_null [rfrom d]"
    "pio_iodesc_list s1 = pio_iodesc_list s"
    by (simp_all add: s1_def brel_field_proj)
  have p2: "pio s2 = pio s" "regions s2 = regions s"
    "types_freed s2 = types_freed s @ live_handles s (rtype d) (nrecvs d)"
    "comms_freed s2 = comms_freed s"
    "blocks_released s2 = blocks_released s @ non_null [rfrom d] @ non_null [rtype d]"
    "pio_iodesc_list s2 = pio_iodesc_list s"
    by (simp_all add: s2_def p1 lh1)
  have p3: "pio s3 = pio s" "regions s3 = regions s"
    "types_freed s3 = types_freed s @ live_handles s (rtype d) (nrecvs d) @
       live_handles s (stype d) (num_stypes d)"
    "comms_freed s3 = comms_freed s"
    "blocks_released s3 = blocks_released s @ non_null [rfrom d] @ non_null [rtype d] @
       non_null [stype d]"
    "pio_iodesc_list s3 = pio_iodesc_list s"
    by (simp_all add: s3_def p2 lh2)
  have p3': "pio s3' = pio s" "regions s3' = regions s" "types_freed s3' = types_freed s3"
    "comms_freed s3' = comms_freed s" "blocks_released s3' = blocks_released s3"
    "(pio_iodesc_list s3')(ioid := None) = (pio_iodesc_list s)(ioid := None)"
    "pio_iodesc_list s3' ioid \<noteq> None"
    using d by (simp_all add: s3'_def p3)
  have p7: "pio s7 = pio s" "regions s7 = regions s" "types_freed s7 = types_freed s3"
    "comms_freed s7 = comms_freed s" "pio_iodesc_list s7 = pio_iodesc_list s3'"
    "blocks_released s7 =
       blocks_released s @
       non_null [rfrom d, rtype d, stype d, scount d, rcount d, sindex d, rindex d]"
    by (simp_all add: s7_def brel_field_proj p3' p3 non_null_Cons)
  have fr: "(if firstregion d \<noteq> NULL
             then free_region_list (regions s7) (firstregion d) (blocks_released s7)
             else Some (Inr (blocks_released s7))) =
            Some (Inr (blocks_released s7 @ region_blocks (regions s) ps))"
    using free_region_list_field [of "regions s" "firstregion d" ps "blocks_released s7"] chain
    by (simp only: p7(2))
  define s8 where "s8 = s7\<lparr>blocks_released := blocks_released s7 @ region_blocks (regions s) ps\<rparr>"
  define s9 where "s9 = (if rearranger d = PIO_REARR_SUBSET
              then s8\<lparr>comms_freed := comms_freed s8 @ [subset_comm d]\<rparr> else s8)"
  have p9: "pio s9 = pio s" "regions s9 = regions s" "types_freed s9 = types_freed s3"
    "comms_freed s9 =
       comms_freed s @ (if rearranger d = PIO_REARR_SUBSET then [subset_comm d] else [])"
    "pio_iodesc_list s9 = pio_iodesc_list s3'"
    "blocks_released s9 =
       blocks_released s @
       non_null [rfrom d, rtype d, stype d, scount d, rcount d, sindex d, rindex d] @
       region_blocks (regions s) ps"
    by (simp_all add: s9_def s8_def p7)
  have r2': "free_type_array (rtype d) (nrecvs d) s1 = Inr s2"
    by (simp only: r2 s2_def)
  have r3': "free_type_array (stype d) (num_stypes d) s2 = Inr s3"
    by (simp only: r3 s3_def)
  have fr': "(if firstregion d \<noteq> NULL
             then free_region_list (regions s7) (firstregion d) (blocks_released s7)
             else Some (Inr (blocks_released s7))) =
            Some (Inr (blocks_released s7 @ region_blocks (regions s) ps))"
    by (rule fr)
  have run: "PIOc_freedecomp s sysid ioid = Some (Inr (pio_delete_iodesc_from_list ioid s9))"
    unfolding PIOc_freedecomp_def pio_get_iodesc_from_id_def Let_def
    apply (simp only: ios d option.case)
    apply (simp only: s1_def [symmetric] r2' sum.case)
    apply (simp only: r3' sum.case s3'_def [symmetric])
    apply (simp only: s7_def [symmetric] fr' option.case sum.case)
    apply (simp only: s8_def [symmetric] s9_def [symmetric])
    done
  have del: "pio_delete_iodesc_from_list ioid s9 =
      (PIO_NOERR, s9\<lparr>pio_iodesc_list := (pio_iodesc_list s9)(ioid := None)\<rparr>)"
    using p3'(7) by (auto simp: pio_delete_iodesc_from_list_def p9(5) split: option.splits)
  show ?thesis
    by (intro exI [of _ "s9\<lparr>pio_iodesc_list := (pio_iodesc_list s9)(ioid := None)\<rparr>"])
      (simp add: run del p9 p3' p3)
qed

text \<open>
  Claim C5. A call of \<^verbatim>\<open>PIOc_freedecomp\<close> with an unknown I/O system or with a
  decomposition identifier that is not in the registry returns the bad-id code and
  leaves the state, and so every resource, as it was. A call on a registered identifier
  whose handle arrays are usable and distinct and whose region list ends in null returns,
  and has then given back: the receive-from array, the two handle arrays, the count
  arrays and the index arrays, each if not null; every handle among the first
  \<open>nrecvs\<close> and the first \<open>num_stypes\<close> entries that is not the null handle; the
  region list, node by node; the sub-communicator if and only if the rearranger is the
  subset one; and the identifier is no longer in the registry, so that a second call
  with it returns the bad-id code and gives nothing back.
\<close>

theorem PIOc_freedecomp_exactly_once:
  "(pio_get_iosystem_from_id (pio s) sysid = None \<or> pio_iodesc_list s ioid = None \<longrightarrow>
      PIOc_freedecomp s sysid ioid = Some (Inr (PIO_EBADID, s))) \<and>
   (pio_get_iosystem_from_id (pio s) sysid = Some ios \<and> pio_iodesc_list s ioid = Some d \<and>
    array_ok s (rtype d) (nrecvs d) \<and> array_ok s (stype d) (num_stypes d) \<and>
    (stype d = NULL \<or> rtype d \<noteq> stype d) \<and>
    region_chain (regions s) (firstregion d) ps \<longrightarrow>
      (\<exists>s'. PIOc_freedecomp s sysid ioid = Some (Inr (PIO_NOERR, s')) \<and>
         blocks_released s' =
           blocks_released s @
           non_null [rfrom d, rtype d, stype d, scount d, rcount d, sindex d, rindex d] @
           region_blocks (regions s) ps \<and>
         types_freed s' =
           types_freed s @ live_handles s (rtype d) (nrecvs d) @
           live_handles s (stype d) (num_stypes d) \<and>
         comms_freed s' =
           comms_freed s @ (if rearranger d = PIO_REARR_SUBSET then [subset_comm d] else []) \<and>
         pio_iodesc_list s' = (pio_iodesc_list s)(ioid := None) \<and>
         PIOc_freedecomp s' sysid ioid = Some (Inr (PIO_EBADID, s'))))"
proof (intro conjI impI)
  assume "pio_get_iosystem_from_id (pio s) sysid = None \<or> pio_iodesc_list s ioid = None"
  then show "PIOc_freedecomp s sysid ioid = Some (Inr (PIO_EBADID, s))"
    by (rule PIOc_freedecomp_unknown)
next
  assume a: "pio_get_iosystem_from_id (pio s) sysid = Some ios \<and> pio_iodesc_list s ioid = Some d \<and>
    array_ok s (rtype d) (nrecvs d) \<and> array_ok s (stype d) (num_stypes d) \<and>
    (stype d = NULL \<or> rtype d \<noteq> stype d) \<and>
    region_chain (regions s) (firstregion d) ps"
  then obtain s' where s': "PIOc_freedecomp s sysid ioid = Some (Inr (PIO_NOERR, s'))"
    "blocks_released s' =
           blocks_released s @
           non_null [rfrom d, rtype d, stype d, scount d, rcount d, sindex d, rindex d] @
           region_blocks (regions s) ps"
    "types_freed s' =
           types_freed s @ live_handles s (rtype d) (nrecvs d) @
           live_handles s (stype d) (num_stypes d)"
    "comms_freed s' =
           comms_freed s @ (if rearranger d = PIO_REARR_SUBSET then [subset_comm d] else [])"
    "pio_iodesc_list s' = (pio_iodesc_list s)(ioid := None)"
    using PIOc_freedecomp_live [of s sysid ios ioid d ps] by blast
  have "pio_iodesc_list s' ioid = None"
    using s'(5) by simp
  then have again: "PIOc_freedecomp s' sysid ioid = Some (Inr (PIO_EBADID, s'))"
    by (intro PIOc_freedecomp_unknown) simp
  show "\<exists>s'. PIOc_freedecomp s sysid ioid = Some (Inr (PIO_NOERR, s')) \<and>
         blocks_released s' =
           blocks_released s @
           non_null [rfrom d, rtype d, stype d, scount d, rcount d, sindex d, rindex d] @
           region_blocks (regions s) ps \<and>
         types_freed s' =
           types_freed s @ live_handles s (rtype d) (nrecvs d) @
           live_handles s (stype d) (num_stypes d) \<and>
         comms_freed s' =
           comms_freed s @ (if rearranger d = PIO_REARR_SUBSET then [subset_comm d] else []) \<and>
         pio_iodesc_list s' = (pio_iodesc_list s)(ioid := None) \<and>
         PIOc_freedecomp s' sysid ioid = Some (Inr (PIO_EBADID, s'))"
    using s' again by (intro exI [of _ s']) simp
qed

theorem PIOc_freedecomp_exactly_once_witness:
  "pio_get_iosystem_from_id (pio sample_decomp_state) 0 = Some sample_ios \<and>
   pio_iodesc_list sample_decomp_state 7 = Some sample_iodesc \<and>
   region_chain (regions sample_decomp_state) (firstregion sample_iodesc) [1, 2] \<and>
   (\<exists>s'. PIOc_freedecomp sample_decomp_state 0 7 = Some (Inr (PIO_NOERR, s')) \<and>
      blocks_released s' = [30, 31, 32, 33, 34, 10, 1, 21, 2] \<and>
      types_freed s' = [5] \<and> comms_freed s' = [9] \<and>
      pio_iodesc_list s' 7 = None \<and>
      PIOc_freedecomp s' 0 7 = Some (Inr (PIO_EBADID, s'))) \<and>
   PIOc_freedecomp sample_decomp_state 0 8 = Some (Inr (PIO_EBADID, sample_decomp_state))"
proof -
  have h: "pio_get_iosystem_from_id (pio sample_decomp_state) 0 = Some sample_ios"
    "pio_iodesc_list sample_decomp_state 7 = Some sample_iodesc"
    "region_chain (regions sample_decomp_state) (firstregion sample_iodesc) [1, 2]"
    "array_ok sample_decomp_state (rtype sample_iodesc) (nrecvs sample_iodesc)"
    "array_ok sample_decomp_state (stype sample_iodesc) (num_stypes sample_iodesc)"
    "stype sample_iodesc = NULL \<or> rtype sample_iodesc \<noteq> stype sample_iodesc"
    "pio_get_iosystem_from_id (pio sample_decomp_state) 0 = None \<or>
     pio_iodesc_list sample_decomp_state 8 = None"
    by (simp_all add: sample_decomp_state_def sample_iodesc_def sample_state_def
        pio_get_iosystem_from_id_def array_ok_def NULL_def)
  have v: "non_null [rfrom sample_iodesc, rtype sample_iodesc, stype sample_iodesc,
             scount sample_iodesc, rcount sample_iodesc, sindex sample_iodesc,
             rindex sample_iodesc] @
           region_blocks (regions sample_decomp_state) [1, 2] =
           [30, 31, 32, 33, 34, 10, 1, 21, 2]"
    "live_handles sample_decomp_state (rtype sample_iodesc) (nrecvs sample_iodesc) @
     live_handles sample_decomp_state (stype sample_iodesc) (num_stypes sample_iodesc) = [5]"
    "rearranger sample_iodesc = PIO_REARR_SUBSET" "subset_comm sample_iodesc = 9"
    "blocks_released sample_decomp_state = []" "types_freed sample_decomp_state = []"
    "comms_freed sample_decomp_state = []"
    by (simp_all add: sample_decomp_state_def sample_iodesc_def non_null_def NULL_def
        free_region_node_def brel_def live_handles_def MPI_DATATYPE_NULL_def)
  from PIOc_freedecomp_exactly_once
    [of sample_decomp_state 0 7 sample_ios sample_iodesc "[1, 2]"] h
  obtain s' where s': "PIOc_freedecomp sample_decomp_state 0 7 = Some (Inr (PIO_NOERR, s'))"
    "blocks_released s' =
       blocks_released sample_decomp_state @
       non_null [rfrom sample_iodesc, rtype sample_iodesc, stype sample_iodesc,
             scount sample_iodesc, rcount sample_iodesc, sindex sample_iodesc,
             rindex sample_iodesc] @
       region_blocks (regions sample_decomp_state) [1, 2]"
    "types_freed s' =
       types_freed sample_decomp_state @
       live_handles sample_decomp_state (rtype sample_iodesc) (nrecvs sample_iodesc) @
       live_handles sample_decomp_state (stype sample_iodesc) (num_stypes sample_iodesc)"
    "comms_freed s' =
       comms_freed sample_decomp_state @
       (if rearranger sample_iodesc = PIO_REARR_SUBSET then [subset_comm sample_iodesc] else [])"
    "pio_iodesc_list s' = (pio_iodesc_list sample_decomp_state)(7 := None)"
    "PIOc_freedecomp s' 0 7 = Some (Inr (PIO_EBADID, s'))"
    by blast
  have ex: "\<exists>s'. PIOc_freedecomp sample_decomp_state 0 7 = Some (Inr (PIO_NOERR, s')) \<and>
      blocks_released s' = [30, 31, 32, 33, 34, 10, 1, 21, 2] \<and>
      types_freed s' = [5] \<and> comms_freed s' = [9] \<and>
      pio_iodesc_list s' 7 = None \<and>
      PIOc_freedecomp s' 0 7 = Some (Inr (PIO_EBADID, s'))"
    using s' v by (intro exI [of _ s']) simp
  have unknown: "PIOc_freedecomp sample_decomp_state 0 8 =
      Some (Inr (PIO_EBADID, sample_decomp_state))"
    using PIOc_freedecomp_unknown [OF h(7)] .
  from h(1,2,3) ex unknown show ?thesis by (intro conjI)
qed

subsection \<open>Formatted output and input\<close>
















subsection \<open>Reading a map: ranks beyond the declared count, and the header\<close>

text \<open>
  Claim C10. On a process that is not rank 0, whose rank is not below the process count
  it receives by the first broadcast, with valid result pointers and a dimension array
  that could be allocated, \<^verbatim>\<open>PIOc_readmap\<close> takes part in the three broadcasts
  (process count, number of dimensions, dimension sizes) and in no other communication,
  returns success, writes the number of dimensions and the dimension sizes, writes 0 as
  the map length, and writes nothing through the map pointer.
\<close>

theorem readmap_rank_beyond_declared:
  assumes "ndims_p a \<noteq> NULL" and "gdims_p a \<noteq> NULL" and "fmaplen_p a \<noteq> NULL"
    and "map_p a \<noteq> NULL" and "myrank \<noteq> 0" and "bcast_rnpes e \<le> myrank"
    and "0 \<le> bcast_ndims e"
    and "bcast_ndims e = 0 \<or> alloc_ok e (nat (bcast_ndims e) * 4)"
  shows "PIOc_readmap e a npes myrank =
           Some \<lparr>rm_outcome = Return PIO_NOERR, rm_ndims = Some (bcast_ndims e),
                 rm_gdims = Some (received (bcast_ndims e) 0 (bcast_tdims e)),
                 rm_fmaplen = Some 0, rm_map = None,
                 rm_events =
                   [Ev_bcast (Ints [bcast_rnpes e]) 0 (readmap_comm a),
                    Ev_bcast (Ints [bcast_ndims e]) 0 (readmap_comm a),
                    Ev_bcast (Ints (received (bcast_ndims e) 0 (bcast_tdims e))) 0
                      (readmap_comm a)]\<rparr>"
  using assms by (auto simp: PIOc_readmap_def readmap_other_def Let_def)

theorem readmap_rank_beyond_declared_witness:
  "PIOc_readmap
     \<lparr>fopen_read = None, alloc_ok = (\<lambda>_. True), bcast_rnpes = 3, bcast_ndims = 2,
      bcast_tdims = [4, 5], recv_maplen = 0, recv_tmap = []\<rparr>
     sample_readmap_args 4 3 =
   Some \<lparr>rm_outcome = Return 0, rm_ndims = Some 2, rm_gdims = Some [4, 5],
         rm_fmaplen = Some 0, rm_map = None,
         rm_events = [Ev_bcast (Ints [3]) 0 5, Ev_bcast (Ints [2]) 0 5,
                      Ev_bcast (Ints [4, 5]) 0 5]\<rparr>"
  using readmap_rank_beyond_declared
    [of sample_readmap_args 3
        "\<lparr>fopen_read = None, alloc_ok = (\<lambda>_. True), bcast_rnpes = 3, bcast_ndims = 2,
          bcast_tdims = [4, 5], recv_maplen = 0, recv_tmap = []\<rparr>" 4]
  by (simp add: sample_readmap_args_def NULL_def PIO_NOERR_def received_def)

lemma readmap_died_outcome:
  "rm_outcome (readmap_died evs msg) = Aborted"
  "rm_events (readmap_died [] msg) =
     [Ev_diag (Abort_message (Text msg)), Ev_diag Stack_trace, Ev_abort]"
  by (simp_all add: readmap_died_def piodie_def)

lemma readmap_peer_blocked:
  "bcast_payloads (rm_events res) = [] \<Longrightarrow>
     readmap_peer (Some res) alloc a npes r = Some readmap_blocked"
  by (simp add: readmap_peer_def)

lemma readmap_group_died_early:
  assumes "PIOc_readmap
             \<lparr>fopen_read = file, alloc_ok = alloc, bcast_rnpes = 0, bcast_ndims = 0,
              bcast_tdims = [], recv_maplen = 0, recv_tmap = []\<rparr> a (int npes) 0 =
           Some (readmap_died [] msg)"
  shows "readmap_group file alloc a npes =
           Some (readmap_died [] msg) # replicate (npes - 1) (Some readmap_blocked)"
proof -
  have "bcast_payloads (rm_events (readmap_died [] msg)) = []"
    by (simp add: readmap_died_def piodie_def)
  then have "map (readmap_peer (Some (readmap_died [] msg)) alloc a npes) [1..<npes] =
      map (\<lambda>_. Some readmap_blocked) [1..<npes]"
    by (intro map_cong refl readmap_peer_blocked)
  then have "map (readmap_peer (Some (readmap_died [] msg)) alloc a npes) [1..<npes] =
      replicate (npes - 1) (Some readmap_blocked)"
    by (simp add: map_replicate_const)
  with assms show ?thesis
    by (simp add: readmap_group_def Let_def)
qed

lemma readmap_header_checks:
  assumes "ndims_p a \<noteq> NULL" and "gdims_p a \<noteq> NULL" and "fmaplen_p a \<noteq> NULL"
    and "map_p a \<noteq> NULL" and "fopen_read e = Some text"
    and "fscanf (''version %d npes %d ndims %d'' @ [CHR 0x0A]) text = Scanned (v # vs) rest"
  shows "(v \<noteq> versno \<longrightarrow>
            PIOc_readmap e a npes 0 =
              Some (readmap_died [] ''Attempt to read incompatable map file version'') \<and>
            readmap_group (Some text) (alloc_ok e) a (nat npes) =
              Some (readmap_died [] ''Attempt to read incompatable map file version'') #
              replicate (nat npes - 1) (Some readmap_blocked)) \<and>
         (v = versno \<and> vs \<noteq> [] \<and> (hd vs < 1 \<or> hd vs > npes) \<longrightarrow>
            PIOc_readmap e a npes 0 =
              Some (readmap_died [] ''Incompatable pe count in map file '') \<and>
            (0 \<le> npes \<longrightarrow>
               readmap_group (Some text) (alloc_ok e) a (nat npes) =
                 Some (readmap_died [] ''Incompatable pe count in map file '') #
                 replicate (nat npes - 1) (Some readmap_blocked))) \<and>
         rm_outcome (readmap_died [] msg) = Aborted \<and>
         rm_events (readmap_died [] msg) =
           [Ev_diag (Abort_message (Text msg)), Ev_diag Stack_trace, Ev_abort] \<and>
         rm_outcome readmap_blocked = Aborted"
proof -
  have v: "PIOc_readmap e' a npes' 0 =
             Some (readmap_died [] ''Attempt to read incompatable map file version'')"
    if "v \<noteq> versno" "fopen_read e' = Some text" for e' npes'
    using assms(1-4,6) that by (simp add: PIOc_readmap_def)
  have n: "PIOc_readmap e' a npes 0 =
             Some (readmap_died [] ''Incompatable pe count in map file '')"
    if "v = versno" "vs \<noteq> []" "hd vs < 1 \<or> hd vs > npes" "fopen_read e' = Some text" for e'
    using assms(1-4,6) that by (cases vs) (auto simp: PIOc_readmap_def)
  have gv: "readmap_group (Some text) (alloc_ok e) a (nat npes) =
              Some (readmap_died [] ''Attempt to read incompatable map file version'') #
              replicate (nat npes - 1) (Some readmap_blocked)"
    if "v \<noteq> versno"
    by (rule readmap_group_died_early) (simp add: v [OF that])
  have gn: "readmap_group (Some text) (alloc_ok e) a (nat npes) =
                 Some (readmap_died [] ''Incompatable pe count in map file '') #
                 replicate (nat npes - 1) (Some readmap_blocked)"
    if "v = versno" "vs \<noteq> []" "hd vs < 1 \<or> hd vs > npes" "0 \<le> npes"
    by (rule readmap_group_died_early) (use that in \<open>simp add: n\<close>)
  show ?thesis
    using v [OF _ assms(5)] n [OF _ _ _ assms(5)] gv gn
    by (simp add: readmap_died_outcome readmap_blocked_def)
qed

lemmas scan_defs =
  fscanf_def scan_int_def is_space_def is_digit_def digits_val_def digit_val_def
  store_conv_def

text \<open>
  Claim C7 describes the check the code means to make, and the code misses it for a
  version tag that does not fit an \<^verbatim>\<open>int\<close>. The file of one process below carries
  the version tag 4294969297; the conversion stores its low 32 bits, which are 2001, and
  \<^verbatim>\<open>PIOc_readmap\<close> on a group of one process reads the file and returns success.
  In the same way the process count 4294967297 is stored as 1 and accepted by a group of
  one process. A tag of an older version, 2000, is refused as the claim says.
\<close>

theorem readmap_version_tag_wraps:
  "fscanf (''version %d npes %d ndims %d'' @ [CHR 0x0A])
     (''version 4294969297 npes 1 ndims 0 '' @ [CHR 0x0A, CHR 0x0A] @ ''0 0'' @
      [CHR 0x0A, CHR 0x0A]) =
     Scanned [2001, 1, 0] (''0 0'' @ [CHR 0x0A, CHR 0x0A]) \<and>
   PIOc_readmap
     \<lparr>fopen_read = Some (''version 4294969297 npes 1 ndims 0 '' @ [CHR 0x0A, CHR 0x0A] @
                          ''0 0'' @ [CHR 0x0A, CHR 0x0A]),
      alloc_ok = (\<lambda>_. True), bcast_rnpes = 0, bcast_ndims = 0, bcast_tdims = [],
      recv_maplen = 0, recv_tmap = []\<rparr> sample_readmap_args 1 0 =
     Some \<lparr>rm_outcome = Return 0, rm_ndims = Some 0, rm_gdims = Some [],
           rm_fmaplen = Some 0, rm_map = Some [],
           rm_events = [Ev_bcast (Ints [1]) 0 5, Ev_bcast (Ints [0]) 0 5,
                        Ev_bcast (Ints []) 0 5]\<rparr> \<and>
   PIOc_readmap
     \<lparr>fopen_read = Some (''version 2001 npes 4294967297 ndims 0 '' @ [CHR 0x0A, CHR 0x0A] @
                          ''0 0'' @ [CHR 0x0A, CHR 0x0A]),
      alloc_ok = (\<lambda>_. True), bcast_rnpes = 0, bcast_ndims = 0, bcast_tdims = [],
      recv_maplen = 0, recv_tmap = []\<rparr> sample_readmap_args 1 0 =
     Some \<lparr>rm_outcome = Return 0, rm_ndims = Some 0, rm_gdims = Some [],
           rm_fmaplen = Some 0, rm_map = Some [],
           rm_events = [Ev_bcast (Ints [1]) 0 5, Ev_bcast (Ints [0]) 0 5,
                        Ev_bcast (Ints []) 0 5]\<rparr> \<and>
   PIOc_readmap
     \<lparr>fopen_read = Some (''version 2000 npes 1 ndims 0 '' @ [CHR 0x0A, CHR 0x0A] @
                          ''0 0'' @ [CHR 0x0A, CHR 0x0A]),
      alloc_ok = (\<lambda>_. True), bcast_rnpes = 0, bcast_ndims = 0, bcast_tdims = [],
      recv_maplen = 0, recv_tmap = []\<rparr> sample_readmap_args 1 0 =
     Some (readmap_died [] ''Attempt to read incompatable map file version'')"
proof -
  have s1: "fscanf (''version %d npes %d ndims %d'' @ [CHR 0x0A])
     (''version 4294969297 npes 1 ndims 0 '' @ [CHR 0x0A, CHR 0x0A] @ ''0 0'' @
      [CHR 0x0A, CHR 0x0A]) =
     Scanned [2001, 1, 0] (''0 0'' @ [CHR 0x0A, CHR 0x0A])"
    by (simp add: scan_defs)
  have s2: "fscanf (''version %d npes %d ndims %d'' @ [CHR 0x0A])
     (''version 2001 npes 4294967297 ndims 0 '' @ [CHR 0x0A, CHR 0x0A] @ ''0 0'' @
      [CHR 0x0A, CHR 0x0A]) =
     Scanned [2001, 1, 0] (''0 0'' @ [CHR 0x0A, CHR 0x0A])"
    by (simp add: scan_defs)
  have s3: "fscanf (''version %d npes %d ndims %d'' @ [CHR 0x0A])
     (''version 2000 npes 1 ndims 0 '' @ [CHR 0x0A, CHR 0x0A] @ ''0 0'' @
      [CHR 0x0A, CHR 0x0A]) =
     Scanned [2000, 1, 0] (''0 0'' @ [CHR 0x0A, CHR 0x0A])"
    by (simp add: scan_defs)
  have s4: "fscanf ''%d %ld'' (''0 0'' @ [CHR 0x0A, CHR 0x0A]) = Scanned [0, 0] [CHR 0x0A, CHR 0x0A]"
    by (simp add: scan_defs)
  have root: "readmap_root
     \<lparr>fopen_read = f, alloc_ok = (\<lambda>_. True), bcast_rnpes = 0, bcast_ndims = 0,
      bcast_tdims = [], recv_maplen = 0, recv_tmap = []\<rparr> sample_readmap_args 1 1 0
     (''0 0'' @ [CHR 0x0A, CHR 0x0A]) =
     Some \<lparr>rm_outcome = Return 0, rm_ndims = Some 0, rm_gdims = Some [],
           rm_fmaplen = Some 0, rm_map = Some [],
           rm_events = [Ev_bcast (Ints [1]) 0 5, Ev_bcast (Ints [0]) 0 5,
                        Ev_bcast (Ints []) 0 5]\<rparr>" for f
    using s4
    by (simp add: readmap_root_def read_rank_def sample_readmap_args_def offsets_size_def
        INT_MAX_def PIO_NOERR_def Let_def)
  have p: "ndims_p sample_readmap_args \<noteq> NULL \<and> gdims_p sample_readmap_args \<noteq> NULL \<and>
    fmaplen_p sample_readmap_args \<noteq> NULL \<and> map_p sample_readmap_args \<noteq> NULL"
    by (simp add: sample_readmap_args_def NULL_def)
  have r1: "PIOc_readmap
     \<lparr>fopen_read = Some (''version 4294969297 npes 1 ndims 0 '' @ [CHR 0x0A, CHR 0x0A] @
                          ''0 0'' @ [CHR 0x0A, CHR 0x0A]),
      alloc_ok = (\<lambda>_. True), bcast_rnpes = 0, bcast_ndims = 0, bcast_tdims = [],
      recv_maplen = 0, recv_tmap = []\<rparr> sample_readmap_args 1 0 =
     Some \<lparr>rm_outcome = Return 0, rm_ndims = Some 0, rm_gdims = Some [],
           rm_fmaplen = Some 0, rm_map = Some [],
           rm_events = [Ev_bcast (Ints [1]) 0 5, Ev_bcast (Ints [0]) 0 5,
                        Ev_bcast (Ints []) 0 5]\<rparr>"
    using p s1 root by (simp add: PIOc_readmap_def versno_def)
  have r2: "PIOc_readmap
     \<lparr>fopen_read = Some (''version 2001 npes 4294967297 ndims 0 '' @ [CHR 0x0A, CHR 0x0A] @
                          ''0 0'' @ [CHR 0x0A, CHR 0x0A]),
      alloc_ok = (\<lambda>_. True), bcast_rnpes = 0, bcast_ndims = 0, bcast_tdims = [],
      recv_maplen = 0, recv_tmap = []\<rparr> sample_readmap_args 1 0 =
     Some \<lparr>rm_outcome = Return 0, rm_ndims = Some 0, rm_gdims = Some [],
           rm_fmaplen = Some 0, rm_map = Some [],
           rm_events = [Ev_bcast (Ints [1]) 0 5, Ev_bcast (Ints [0]) 0 5,
                        Ev_bcast (Ints []) 0 5]\<rparr>"
    using p s2 root by (simp add: PIOc_readmap_def versno_def)
  have r3: "PIOc_readmap
     \<lparr>fopen_read = Some (''version 2000 npes 1 ndims 0 '' @ [CHR 0x0A, CHR 0x0A] @
                          ''0 0'' @ [CHR 0x0A, CHR 0x0A]),
      alloc_ok = (\<lambda>_. True), bcast_rnpes = 0, bcast_ndims = 0, bcast_tdims = [],
      recv_maplen = 0, recv_tmap = []\<rparr> sample_readmap_args 1 0 =
     Some (readmap_died [] ''Attempt to read incompatable map file version'')"
    using p s3 by (simp add: PIOc_readmap_def versno_def)
  from s1 r1 r2 r3 show ?thesis by (intro conjI)
qed

subsection \<open>The map file: what is written is read back\<close>


lemma space_chars: "is_space CHR '' ''" "is_space (CHR 0x0A)"
  by (simp_all add: is_space_def)













lemma dropWhile_space_nl: "dropWhile is_space (CHR 0x0A # s) = dropWhile is_space s"
  by (simp add: space_chars)




















end
